theory Spec2Isabelle
  imports Main
begin

section \<open>Python values, exceptions and the library primitives the module calls\<close>

text \<open>
  The module \<^verbatim>\<open>modules/api.py\<close> is glue code over the file system, the JSON and CSV
  libraries and an HTTP framework. Exceptions are values of \<open>py_error\<close>; a computation
  that may raise returns \<open>py_error + 'a\<close> with \<open>Inl\<close> the exception. Python objects that
  come out of \<^verbatim>\<open>json.load\<close> or go into \<^verbatim>\<open>web.json_response\<close> are values of \<open>pyval\<close>;
  a dict is the list of its items (keys distinct, looked up with \<open>map_of\<close>). Floating-point
  numbers are kept abstract: the type parameter \<open>'f\<close> with the operations of \<open>pylib\<close>.
\<close>

datatype py_error =
  OSError | JSONDecodeError | UnicodeDecodeError | UnicodeEncodeError | ValueError | KeyError
  | TypeError | AttributeError | OverflowError | CsvError

datatype 'f pyval =
  PNone | PBool bool | PInt int | PFloat 'f | PStr string
  | PList "'f pyval list" | PDict "(string \<times> 'f pyval) list"

text \<open>
  The library functions whose results the module only passes on:
  \<^verbatim>\<open>json.load\<close> on the text of a file, \<^verbatim>\<open>float\<close> on an int and on a str, the test
  \<^verbatim>\<open>x != 0\<close> on a float, \<^verbatim>\<open>format(x, '')\<close> on a float, \<^verbatim>\<open>format(v, '')\<close> on a value
  that is not a str, \<^verbatim>\<open>str(e)\<close> on an exception, \<^verbatim>\<open>int\<close> on a str that has a character
  outside ASCII, and what \<^verbatim>\<open>writer.writerow\<close> does for one row on a file opened with
  \<^verbatim>\<open>encoding='utf8'\<close>: the text it writes, or the exception it raises (a
  \<^verbatim>\<open>UnicodeEncodeError\<close> for a field that cannot be encoded, a \<^verbatim>\<open>csv.Error\<close>).
\<close>

record 'f pylib =
  json_loads :: "string \<Rightarrow> py_error + 'f pyval"
  float_of_int :: "int \<Rightarrow> py_error + 'f"
  float_of_str :: "string \<Rightarrow> py_error + 'f"
  float_nonzero :: "'f \<Rightarrow> bool"
  format_float :: "'f \<Rightarrow> string"
  format_other :: "'f pyval \<Rightarrow> string"
  str_of_error :: "py_error \<Rightarrow> string"
  int_of_str :: "string \<Rightarrow> py_error + int"
  csv_writerow :: "string \<times> 'f pyval \<times> string \<Rightarrow> py_error + string"

section \<open>Strings and paths\<close>

fun startswith :: "string \<Rightarrow> string \<Rightarrow> bool" where
  "startswith s [] = True"
| "startswith [] (p # ps) = False"
| "startswith (c # cs) (p # ps) = (c = p \<and> startswith cs ps)"

definition endswith :: "string \<Rightarrow> string \<Rightarrow> bool" where
  "endswith s p = startswith (rev s) (rev p)"

text \<open>\<^verbatim>\<open>p in s\<close> on two strings: \<open>p\<close> occurs in \<open>s\<close> as a contiguous substring.\<close>

fun substr_in :: "string \<Rightarrow> string \<Rightarrow> bool" where
  "substr_in p [] = (p = [])"
| "substr_in p (c # cs) = (startswith (c # cs) p \<or> substr_in p cs)"

text \<open>\<^verbatim>\<open>str.lower\<close>, on the ASCII letters (a \<open>char\<close> is a byte; other bytes are kept).\<close>

definition lower_char :: "char \<Rightarrow> char" where
  "lower_char c =
     (if (65::nat) \<le> of_char c \<and> (of_char c :: nat) \<le> 90
      then char_of ((of_char c :: nat) + 32) else c)"

definition lower :: "string \<Rightarrow> string" where
  "lower s = map lower_char s"

text \<open>\<^verbatim>\<open>os.path.join\<close> of two components, as \<^verbatim>\<open>posixpath\<close> defines it.\<close>

definition path_join :: "string \<Rightarrow> string \<Rightarrow> string" where
  "path_join a b =
     (if startswith b ''/'' then b
      else if a = [] \<or> endswith a ''/'' then a @ b
      else a @ ''/'' @ b)"

section \<open>The file system and the module's constants\<close>

datatype node = File string | Directory

text \<open>
  \<open>nodes\<close> maps a path to what is there, \<open>os_listdir\<close> and \<open>os_walk\<close> are the results of
  \<^verbatim>\<open>os.listdir\<close> and \<^verbatim>\<open>os.walk\<close> (a listing may name an entry that \<^verbatim>\<open>os.path.exists\<close>
  denies, such as a dangling link), \<open>writable\<close> tells whether \<^verbatim>\<open>open(path, "w")\<close> succeeds
  and the file can be closed with what was written.
  \<open>DATA_DIR\<close> is the module's constant and \<open>CSV_META_FILE\<close> the downloader's;
  \<open>lora_search_path\<close> is what
  \<^verbatim>\<open>dl.Downloader()._load_metadata().get("lora_search_path", [])\<close> returns.
\<close>

record env =
  nodes :: "string \<Rightarrow> node option"
  os_listdir :: "string \<Rightarrow> py_error + string list"
  os_walk :: "string \<Rightarrow> (string \<times> string list \<times> string list) list"
  writable :: "string \<Rightarrow> bool"
  DATA_DIR :: string
  CSV_META_FILE :: string
  lora_search_path :: "string list"

definition os_path_exists :: "env \<Rightarrow> string \<Rightarrow> bool" where
  "os_path_exists e p = (nodes e p \<noteq> None)"

text \<open>\<^verbatim>\<open>open(path, "r")\<close> followed by reading the text.\<close>

definition read_file :: "env \<Rightarrow> string \<Rightarrow> py_error + string" where
  "read_file e p = (case nodes e p of Some (File b) \<Rightarrow> Inr b | _ \<Rightarrow> Inl OSError)"

definition DANBOORU_PREFIX :: string where "DANBOORU_PREFIX = ''danbooru''"
definition E621_PREFIX :: string where "E621_PREFIX = ''e621''"
definition LORA_PREFIX :: string where "LORA_PREFIX = ''lora''"
definition TAGS_SUFFIX :: string where "TAGS_SUFFIX = ''tags''"
definition COOCCURRENCE_SUFFIX :: string where "COOCCURRENCE_SUFFIX = ''tags_cooccurrence''"

text \<open>The f-string \<^verbatim>\<open>f"{prefix}_{suffix}.csv"\<close>.\<close>

definition base_file :: "string \<Rightarrow> string \<Rightarrow> string" where
  "base_file prefix suffix = prefix @ ''_'' @ suffix @ ''.csv''"

section \<open>The directory scanner: \<^verbatim>\<open>get_csv_file_status\<close>\<close>

definition all_csv_files :: "string \<Rightarrow> string list \<Rightarrow> string list" where
  "all_csv_files prefix listing =
     filter (\<lambda>f. startswith f prefix \<and> endswith f ''.csv'') listing"

text \<open>
  The loop over \<open>all_csv_files\<close>; the state is the pair
  \<open>(tags_extra_files, cooccurrence_extra_files)\<close>.
\<close>

fun classify_extra :: "string \<Rightarrow> string list \<Rightarrow> string list \<times> string list
    \<Rightarrow> string list \<times> string list" where
  "classify_extra prefix [] acc = acc"
| "classify_extra prefix (filename # rest) (tags_extra, cooc_extra) =
     (if filename \<in> set [base_file prefix TAGS_SUFFIX, base_file prefix COOCCURRENCE_SUFFIX]
      then classify_extra prefix rest (tags_extra, cooc_extra)
      else if substr_in COOCCURRENCE_SUFFIX (lower filename)
      then classify_extra prefix rest (tags_extra, cooc_extra @ [filename])
      else if substr_in TAGS_SUFFIX (lower filename)
      then classify_extra prefix rest (tags_extra @ [filename], cooc_extra)
      else classify_extra prefix rest (tags_extra, cooc_extra))"

text \<open>The files of \<open>all_csv_files\<close> that the loop does not skip as base files.\<close>

definition extra_candidates :: "string \<Rightarrow> string list \<Rightarrow> string list" where
  "extra_candidates prefix listing =
     filter (\<lambda>f. f \<notin> set [base_file prefix TAGS_SUFFIX, base_file prefix COOCCURRENCE_SUFFIX])
       (all_csv_files prefix listing)"

text \<open>One iteration of the loop over the two prefixes: the entry \<open>data[prefix]\<close>.\<close>

definition scan_prefix :: "env \<Rightarrow> string \<Rightarrow> py_error + 'f pyval" where
  "scan_prefix e prefix =
     (let tags_base_exists =
            os_path_exists e (path_join (DATA_DIR e) (base_file prefix TAGS_SUFFIX));
          cooccurrence_base_exists =
            os_path_exists e (path_join (DATA_DIR e) (base_file prefix COOCCURRENCE_SUFFIX))
      in case os_listdir e (DATA_DIR e) of
           Inl err \<Rightarrow> Inl err
         | Inr listing \<Rightarrow>
             (case classify_extra prefix (all_csv_files prefix listing) ([], []) of
                (tags_extra, cooc_extra) \<Rightarrow>
                  Inr (PDict [(''base_tags'', PBool tags_base_exists),
                              (''extra_tags'', PList (map PStr tags_extra)),
                              (''base_cooccurrence'', PBool cooccurrence_base_exists),
                              (''extra_cooccurrence'', PList (map PStr cooc_extra))])))"

definition get_csv_file_status :: "env \<Rightarrow> py_error + 'f pyval" where
  "get_csv_file_status e =
     (case scan_prefix e DANBOORU_PREFIX of
        Inl err \<Rightarrow> Inl err
      | Inr d \<Rightarrow>
          (case scan_prefix e E621_PREFIX of
             Inl err \<Rightarrow> Inl err
           | Inr s \<Rightarrow> Inr (PDict [(DANBOORU_PREFIX, d), (E621_PREFIX, s)])))"

section \<open>HTTP responses\<close>

text \<open>
  \<^verbatim>\<open>web.json_response(data, status=s)\<close> and \<^verbatim>\<open>web.FileResponse(path)\<close>. A file response
  for a regular file is sent with status 200 and the bytes of the file; what the framework
  does for any other path is not part of this module.
\<close>

datatype 'f response = JsonResponse nat "'f pyval" | FileResponse string

fun status_of :: "env \<Rightarrow> 'f response \<Rightarrow> nat option" where
  "status_of e (JsonResponse s v) = Some s"
| "status_of e (FileResponse p) =
     (case nodes e p of Some (File b) \<Rightarrow> Some 200 | _ \<Rightarrow> None)"

fun sent_bytes :: "env \<Rightarrow> 'f response \<Rightarrow> string option" where
  "sent_bytes e (JsonResponse s v) = None"
| "sent_bytes e (FileResponse p) =
     (case nodes e p of Some (File b) \<Rightarrow> Some b | _ \<Rightarrow> None)"

section \<open>The base-file endpoint: \<^verbatim>\<open>get_base_tags_file\<close>\<close>

definition get_base_tags_file :: "env \<Rightarrow> string \<Rightarrow> string \<Rightarrow> 'f response" where
  "get_base_tags_file e source suffix =
     (if source \<notin> set [DANBOORU_PREFIX, E621_PREFIX, LORA_PREFIX]
         \<or> suffix \<notin> set [TAGS_SUFFIX, COOCCURRENCE_SUFFIX]
      then JsonResponse 400 (PDict [(''error'', PStr ''Invalid tag source or suffix'')])
      else let file_path = path_join (DATA_DIR e) (base_file source suffix)
           in if \<not> os_path_exists e file_path
              then JsonResponse 404 (PDict [(''error'', PStr ''Base tags file not found'')])
              else FileResponse file_path)"

section \<open>Operations on Python values\<close>

definition bind_err :: "py_error + 'a \<Rightarrow> ('a \<Rightarrow> py_error + 'b) \<Rightarrow> py_error + 'b" where
  "bind_err m k = (case m of Inl err \<Rightarrow> Inl err | Inr x \<Rightarrow> k x)"

text \<open>\<^verbatim>\<open>v[key]\<close> with a str key: only a dict accepts it.\<close>

fun py_getitem :: "'f pyval \<Rightarrow> string \<Rightarrow> py_error + 'f pyval" where
  "py_getitem (PDict kvs) key =
     (case map_of kvs key of Some v \<Rightarrow> Inr v | None \<Rightarrow> Inl KeyError)"
| "py_getitem v key = Inl TypeError"

text \<open>\<^verbatim>\<open>v[0]\<close>, reached only after \<^verbatim>\<open>len(v) > 0\<close>; a dict from JSON has str keys only.\<close>

fun py_first :: "'f pyval \<Rightarrow> py_error + 'f pyval" where
  "py_first (PList (x # xs)) = Inr x"
| "py_first (PList []) = Inl KeyError"
| "py_first (PStr (c # cs)) = Inr (PStr [c])"
| "py_first (PStr []) = Inl KeyError"
| "py_first (PDict kvs) = Inl KeyError"
| "py_first v = Inl TypeError"

fun py_len :: "'f pyval \<Rightarrow> py_error + nat" where
  "py_len (PStr s) = Inr (length s)"
| "py_len (PList xs) = Inr (length xs)"
| "py_len (PDict kvs) = Inr (length kvs)"
| "py_len v = Inl TypeError"

text \<open>\<^verbatim>\<open>key in v\<close> with a str key.\<close>

fun py_contains :: "'f pyval \<Rightarrow> string \<Rightarrow> py_error + bool" where
  "py_contains (PDict kvs) key = Inr (key \<in> fst ` set kvs)"
| "py_contains (PList xs) key = Inr (PStr key \<in> set xs)"
| "py_contains (PStr s) key = Inr (substr_in key s)"
| "py_contains v key = Inl TypeError"

text \<open>\<^verbatim>\<open>v.get(key, default)\<close>: only a dict has the method.\<close>

fun py_get :: "'f pyval \<Rightarrow> string \<Rightarrow> 'f pyval \<Rightarrow> py_error + 'f pyval" where
  "py_get (PDict kvs) key dflt =
     Inr (case map_of kvs key of Some v \<Rightarrow> v | None \<Rightarrow> dflt)"
| "py_get v key dflt = Inl AttributeError"

fun py_truthy :: "'f pylib \<Rightarrow> 'f pyval \<Rightarrow> bool" where
  "py_truthy lib PNone = False"
| "py_truthy lib (PBool b) = b"
| "py_truthy lib (PInt i) = (i \<noteq> 0)"
| "py_truthy lib (PFloat x) = float_nonzero lib x"
| "py_truthy lib (PStr s) = (s \<noteq> [])"
| "py_truthy lib (PList xs) = (xs \<noteq> [])"
| "py_truthy lib (PDict kvs) = (kvs \<noteq> [])"

text \<open>\<^verbatim>\<open>float(v)\<close>.\<close>

fun py_float :: "'f pylib \<Rightarrow> 'f pyval \<Rightarrow> py_error + 'f" where
  "py_float lib (PFloat x) = Inr x"
| "py_float lib (PInt i) = float_of_int lib i"
| "py_float lib (PBool b) = float_of_int lib (if b then 1 else 0)"
| "py_float lib (PStr s) = float_of_str lib s"
| "py_float lib v = Inl TypeError"

text \<open>A value inside an f-string: \<^verbatim>\<open>format(v, '')\<close>.\<close>

fun py_format :: "'f pylib \<Rightarrow> 'f pyval \<Rightarrow> string" where
  "py_format lib (PStr s) = s"
| "py_format lib (PFloat x) = format_float lib x"
| "py_format lib v = format_other lib v"

text \<open>
  \<^verbatim>\<open>int(s)\<close> on a str. For ASCII text: the whitespace characters 9 to 13 and 32 around
  the number are stripped, one sign is allowed, single underscores may stand between
  digits, and a text with more than 4300 digits is refused (the default limit of
  \<^verbatim>\<open>sys.set_int_max_str_digits\<close>); any other text raises \<^verbatim>\<open>ValueError\<close>. A text with a
  character outside ASCII (other decimal digits, other whitespace) is left to the library.
\<close>

definition is_ascii :: "char \<Rightarrow> bool" where
  "is_ascii c = ((of_char c :: nat) < 128)"

definition is_space :: "char \<Rightarrow> bool" where
  "is_space c =
     (((9::nat) \<le> of_char c \<and> (of_char c :: nat) \<le> 13) \<or> (of_char c :: nat) = 32)"

definition is_digit :: "char \<Rightarrow> bool" where
  "is_digit c = ((48::nat) \<le> of_char c \<and> (of_char c :: nat) \<le> 57)"

definition strip :: "string \<Rightarrow> string" where
  "strip s = rev (dropWhile is_space (rev (dropWhile is_space s)))"

fun parse_digits :: "string \<Rightarrow> int \<Rightarrow> int option" where
  "parse_digits [] acc = Some acc"
| "parse_digits (c # cs) acc =
     (if is_digit c then parse_digits cs (acc * 10 + (int (of_char c) - 48))
      else if c = CHR ''_'' \<and> cs \<noteq> [] \<and> is_digit (hd cs) then parse_digits cs acc
      else None)"

definition parse_unsigned :: "string \<Rightarrow> int option" where
  "parse_unsigned r = (if r \<noteq> [] \<and> is_digit (hd r) then parse_digits r 0 else None)"

definition ascii_int :: "string \<Rightarrow> py_error + int" where
  "ascii_int s =
     (case strip s of
        c # r \<Rightarrow>
          (if c = CHR ''-'' then
             (case parse_unsigned r of Some n \<Rightarrow> Inr (- n) | None \<Rightarrow> Inl ValueError)
           else if c = CHR ''+'' then
             (case parse_unsigned r of Some n \<Rightarrow> Inr n | None \<Rightarrow> Inl ValueError)
           else
             (case parse_unsigned (c # r) of Some n \<Rightarrow> Inr n | None \<Rightarrow> Inl ValueError))
      | [] \<Rightarrow> Inl ValueError)"

definition py_int :: "'f pylib \<Rightarrow> string \<Rightarrow> py_error + int" where
  "py_int lib s =
     (if \<not> list_all is_ascii s then int_of_str lib s
      else if length (filter is_digit s) > 4300 then Inl ValueError
      else ascii_int s)"

text \<open>
  The exception classes the handlers name: \<^verbatim>\<open>except ValueError\<close> also catches its
  subclasses \<^verbatim>\<open>JSONDecodeError\<close>, \<^verbatim>\<open>UnicodeDecodeError\<close> and \<^verbatim>\<open>UnicodeEncodeError\<close>;
  \<^verbatim>\<open>except (IOError, json.JSONDecodeError)\<close> catches \<^verbatim>\<open>OSError\<close> and \<^verbatim>\<open>JSONDecodeError\<close>.
\<close>

definition is_ValueError :: "py_error \<Rightarrow> bool" where
  "is_ValueError err =
     (err \<in> set [ValueError, JSONDecodeError, UnicodeDecodeError, UnicodeEncodeError])"

definition is_IOError_or_JSONDecodeError :: "py_error \<Rightarrow> bool" where
  "is_IOError_or_JSONDecodeError err = (err \<in> set [OSError, JSONDecodeError])"

section \<open>The extra-file endpoint: \<^verbatim>\<open>get_extra_tags_file\<close>\<close>

text \<open>The body of the \<^verbatim>\<open>try\<close> block.\<close>

definition get_extra_tags_file_body ::
    "'f pylib \<Rightarrow> env \<Rightarrow> string \<Rightarrow> string \<Rightarrow> string \<Rightarrow> py_error + 'f response" where
  "get_extra_tags_file_body lib e source suffix index_str =
     bind_err (get_csv_file_status e :: py_error + 'f pyval) (\<lambda>csv_file_status.
       if source \<notin> set [DANBOORU_PREFIX, E621_PREFIX]
          \<or> suffix \<notin> set [TAGS_SUFFIX, COOCCURRENCE_SUFFIX]
       then Inr (JsonResponse 400 (PDict [(''error'', PStr ''Invalid tag source or suffix'')]))
       else
         bind_err (py_int lib index_str) (\<lambda>index.
           if index < 0
           then Inr (JsonResponse 404 (PDict [(''error'', PStr ''Invalid index'')]))
           else
             bind_err (py_getitem csv_file_status source) (\<lambda>entry.
             bind_err (py_getitem entry (''extra_'' @ suffix)) (\<lambda>extra.
             bind_err (py_len extra) (\<lambda>n.
               if index \<ge> int n
               then Inr (JsonResponse 404 (PDict [(''error'', PStr ''Invalid index'')]))
               else
                 (case extra of
                    PList xs \<Rightarrow>
                      (case xs ! nat index of
                         PStr name \<Rightarrow>
                           (let file_path = path_join (DATA_DIR e) name
                            in if \<not> os_path_exists e file_path
                               then Inr (JsonResponse 404
                                      (PDict [(''error'', PStr ''Extra tags file not found'')]))
                               else Inr (FileResponse file_path))
                       | _ \<Rightarrow> Inl TypeError)
                  | _ \<Rightarrow> Inl TypeError))))))"

definition get_extra_tags_file ::
    "'f pylib \<Rightarrow> env \<Rightarrow> string \<Rightarrow> string \<Rightarrow> string \<Rightarrow> py_error + 'f response" where
  "get_extra_tags_file lib e source suffix index_str =
     (case get_extra_tags_file_body lib e source suffix index_str of
        Inl err \<Rightarrow>
          (if is_ValueError err
           then Inr (JsonResponse 400 (PDict [(''error'', PStr ''Invalid index format'')]))
           else Inl err)
      | Inr r \<Rightarrow> Inr r)"

section \<open>The metadata reader and the last-check-time endpoint\<close>

definition get_last_check_time_from_metadata_body ::
    "'f pylib \<Rightarrow> env \<Rightarrow> py_error + 'f pyval" where
  "get_last_check_time_from_metadata_body lib e =
     (if \<not> os_path_exists e (CSV_META_FILE e) then Inr PNone
      else
        bind_err (read_file e (CSV_META_FILE e)) (\<lambda>text.
        bind_err (json_loads lib text) (\<lambda>metadata.
        bind_err (py_get metadata ''hf_datasets'' (PList [])) (\<lambda>datasets.
          if \<not> py_truthy lib datasets then Inr PNone
          else
            bind_err (py_len datasets) (\<lambda>n.
              if n > 0
              then bind_err (py_first datasets) (\<lambda>d.
                     py_get d ''last_remote_check_timestamp'' PNone)
              else Inr PNone)))))"

definition get_last_check_time_from_metadata :: "'f pylib \<Rightarrow> env \<Rightarrow> py_error + 'f pyval" where
  "get_last_check_time_from_metadata lib e =
     (case get_last_check_time_from_metadata_body lib e of
        Inl err \<Rightarrow> (if is_IOError_or_JSONDecodeError err then Inr PNone else Inl err)
      | Inr v \<Rightarrow> Inr v)"

definition get_last_check_time_body :: "'f pylib \<Rightarrow> env \<Rightarrow> py_error + 'f response" where
  "get_last_check_time_body lib e =
     (if \<not> os_path_exists e (CSV_META_FILE e)
      then Inr (JsonResponse 200
             (PDict [(''last_check_time'', PNone),
                     (''message'', PStr ''csv_meta.json file not found'')]))
      else
        bind_err (get_last_check_time_from_metadata lib e) (\<lambda>last_check_time.
          if last_check_time \<noteq> PNone
          then Inr (JsonResponse 200 (PDict [(''last_check_time'', last_check_time)]))
          else Inr (JsonResponse 200
                 (PDict [(''last_check_time'', PNone),
                         (''message'', PStr ''No datasets found in metadata'')]))))"

definition get_last_check_time :: "'f pylib \<Rightarrow> env \<Rightarrow> py_error + 'f response" where
  "get_last_check_time lib e =
     (case get_last_check_time_body lib e of
        Inl err \<Rightarrow>
          (if is_IOError_or_JSONDecodeError err
           then Inr (JsonResponse 500
                  (PDict [(''last_check_time'', PNone),
                          (''error'', PStr (str_of_error lib err))]))
           else Inl err)
      | Inr r \<Rightarrow> Inr r)"

section \<open>The LoRA synthesizer: \<^verbatim>\<open>generate_lora_csv\<close>\<close>

text \<open>\<^verbatim>\<open>os.path.splitext(p)[0]\<close>: the last dot of the last component splits, unless only
  dots stand before it in that component.\<close>

definition splitext_root :: "string \<Rightarrow> string" where
  "splitext_root p =
     (let tail = rev (takeWhile (\<lambda>c. c \<noteq> CHR ''/'') (rev p));
          head = take (length p - length tail) p;
          lead = takeWhile (\<lambda>c. c = CHR ''.'') tail;
          rest = dropWhile (\<lambda>c. c = CHR ''.'') tail
      in if CHR ''.'' \<in> set rest
         then head @ lead @ rev (tl (dropWhile (\<lambda>c. c \<noteq> CHR ''.'') (rev rest)))
         else p)"

type_synonym 'f lora_row = "string \<times> 'f pyval \<times> string"

text \<open>
  The body of the inner loop for one \<^verbatim>\<open>.json\<close> file: \<open>Inr None\<close> is the \<^verbatim>\<open>continue\<close>
  after the warning, \<open>Inr (Some row)\<close> the row appended to \<open>write_data\<close>.
\<close>

definition process_sidecar ::
    "'f pylib \<Rightarrow> env \<Rightarrow> string \<Rightarrow> string \<Rightarrow> py_error + 'f lora_row option" where
  "process_sidecar lib e root file =
     (let json_filename = path_join root file;
          basename = splitext_root file;
          png = path_join root (basename @ ''.png'');
          preview_url = (if \<not> os_path_exists e png then [] else png)
      in bind_err (read_file e json_filename) (\<lambda>text.
         bind_err (json_loads lib text) (\<lambda>json_data.
         bind_err (py_contains json_data ''activation text'') (\<lambda>present.
           if \<not> present then Inr None
           else
             bind_err (py_getitem json_data ''activation text'') (\<lambda>activation_text.
             bind_err (py_get json_data ''preferred weight'' (PInt 0)) (\<lambda>w.
             bind_err (py_float lib w) (\<lambda>preferred_weight.
               Inr (Some (basename,
                          (if float_nonzero lib preferred_weight
                           then PStr (''<lora:'' @ basename @ '':''
                                  @ format_float lib preferred_weight @ ''>''
                                  @ py_format lib activation_text)
                           else activation_text),
                          preview_url)))))))))"

fun process_files ::
    "'f pylib \<Rightarrow> env \<Rightarrow> string \<Rightarrow> string list \<Rightarrow> 'f lora_row list
     \<Rightarrow> py_error + 'f lora_row list" where
  "process_files lib e root [] write_data = Inr write_data"
| "process_files lib e root (file # rest) write_data =
     (case process_sidecar lib e root file of
        Inl err \<Rightarrow> Inl err
      | Inr None \<Rightarrow> process_files lib e root rest write_data
      | Inr (Some row) \<Rightarrow> process_files lib e root rest (write_data @ [row]))"

fun process_walk ::
    "'f pylib \<Rightarrow> env \<Rightarrow> (string \<times> string list \<times> string list) list \<Rightarrow> 'f lora_row list
     \<Rightarrow> py_error + 'f lora_row list" where
  "process_walk lib e [] write_data = Inr write_data"
| "process_walk lib e ((root, dirs, files) # rest) write_data =
     (case process_files lib e root (filter (\<lambda>x. endswith x ''.json'') files) write_data of
        Inl err \<Rightarrow> Inl err
      | Inr write_data' \<Rightarrow> process_walk lib e rest write_data')"

fun process_paths ::
    "'f pylib \<Rightarrow> env \<Rightarrow> string list \<Rightarrow> 'f lora_row list \<Rightarrow> py_error + 'f lora_row list" where
  "process_paths lib e [] write_data = Inr write_data"
| "process_paths lib e (lora_path # rest) write_data =
     (if \<not> os_path_exists e lora_path then process_paths lib e rest write_data
      else
        (case process_walk lib e (os_walk e lora_path) write_data of
           Inl err \<Rightarrow> Inl err
         | Inr write_data' \<Rightarrow> process_paths lib e rest write_data'))"

text \<open>
  \<^verbatim>\<open>writer.writerows(write_data)\<close> on the file just opened: one \<^verbatim>\<open>writerow\<close> after the
  other, no header. \<open>written\<close> is the text written so far; when a row raises, the rows
  before it have been written and the exception leaves with them in the file.
\<close>

fun csv_writerows :: "'f pylib \<Rightarrow> 'f lora_row list \<Rightarrow> string \<Rightarrow> py_error option \<times> string" where
  "csv_writerows lib [] written = (None, written)"
| "csv_writerows lib (row # rest) written =
     (case csv_writerow lib row of
        Inl err \<Rightarrow> (Some err, written)
      | Inr line \<Rightarrow> csv_writerows lib rest (written @ line))"

text \<open>
  The file after \<^verbatim>\<open>with open(filename, "w", encoding='utf8') as f\<close> has been left: the
  old content is gone and the file holds what was written.
\<close>

definition write_file :: "env \<Rightarrow> string \<Rightarrow> string \<Rightarrow> env" where
  "write_file e filename text = e\<lparr>nodes := (nodes e)(filename \<mapsto> File text)\<rparr>"

definition generate_lora_csv :: "'f pylib \<Rightarrow> env \<Rightarrow> string \<Rightarrow> (py_error + bool) \<times> env" where
  "generate_lora_csv lib e filename =
     (let lora_config = lora_search_path e
      in if length lora_config = 0 then (Inr False, e)
         else
           (case process_paths lib e lora_config [] of
              Inl err \<Rightarrow> (Inl err, e)
            | Inr write_data \<Rightarrow>
                (if \<not> writable e filename then (Inl OSError, e)
                 else
                   (case csv_writerows lib write_data [] of
                      (Some err, written) \<Rightarrow> (Inl err, write_file e filename written)
                    | (None, written) \<Rightarrow> (Inr True, write_file e filename written)))))"

section \<open>The status endpoint: \<^verbatim>\<open>get_csv_list\<close>\<close>

text \<open>The four lookups \<^verbatim>\<open>csv_file_status[prefix][...]\<close> that build one entry of the response.\<close>

definition status_entry :: "'f pyval \<Rightarrow> string \<Rightarrow> py_error + 'f pyval" where
  "status_entry csv_file_status prefix =
     bind_err (py_getitem csv_file_status prefix) (\<lambda>entry.
     bind_err (py_getitem entry ''base_tags'') (\<lambda>base_tags.
     bind_err (py_getitem entry ''extra_tags'') (\<lambda>extra_tags.
     bind_err (py_getitem entry ''base_cooccurrence'') (\<lambda>base_cooccurrence.
     bind_err (py_getitem entry ''extra_cooccurrence'') (\<lambda>extra_cooccurrence.
       Inr (PDict [(''base_tags'', base_tags),
                   (''extra_tags'', extra_tags),
                   (''base_cooccurrence'', base_cooccurrence),
                   (''extra_cooccurrence'', extra_cooccurrence)]))))))"

text \<open>The dict \<open>response\<close> before the LoRA entry is added.\<close>

definition status_response :: "env \<Rightarrow> py_error + (string \<times> 'f pyval) list" where
  "status_response e =
     bind_err (get_csv_file_status e) (\<lambda>csv_file_status.
     bind_err (status_entry csv_file_status DANBOORU_PREFIX) (\<lambda>d.
     bind_err (status_entry csv_file_status E621_PREFIX) (\<lambda>s.
       Inr [(DANBOORU_PREFIX, d), (E621_PREFIX, s)])))"

definition get_csv_list :: "'f pylib \<Rightarrow> env \<Rightarrow> (py_error + 'f response) \<times> env" where
  "get_csv_list lib e =
     (case status_response e of
        Inl err \<Rightarrow> (Inl err, e)
      | Inr response \<Rightarrow>
          (case generate_lora_csv lib e
                  (path_join (DATA_DIR e) (base_file LORA_PREFIX TAGS_SUFFIX)) of
             (Inl err, e') \<Rightarrow> (Inl err, e')
           | (Inr ok, e') \<Rightarrow>
               (Inr (JsonResponse 200
                  (PDict (if ok
                          then response @ [(LORA_PREFIX, PDict [(''base_tags'', PBool True)])]
                          else response))),
                e')))"

section \<open>The candidate set as the specification words it\<close>

text \<open>
  The specification's reading of the scanner's candidates: the files whose names
  \<^emph>\<open>contain\<close> the source prefix and end in \<^verbatim>\<open>.csv\<close>, without the two base files. It is
  compared with the lists the scanner returns.
\<close>

definition spec_candidates :: "string \<Rightarrow> string list \<Rightarrow> string list" where
  "spec_candidates prefix listing =
     filter (\<lambda>f. substr_in prefix f \<and> endswith f ''.csv''
                \<and> f \<notin> set [base_file prefix TAGS_SUFFIX, base_file prefix COOCCURRENCE_SUFFIX])
       listing"

section \<open>The sidecars a run visits\<close>

text \<open>
  The pairs \<open>(root, file)\<close> the three nested loops of \<^verbatim>\<open>generate_lora_csv\<close> reach, in
  order, and the condition that none of them raises.
\<close>

definition walk_sidecars :: "(string \<times> string list \<times> string list) list \<Rightarrow> (string \<times> string) list" where
  "walk_sidecars w =
     concat (map (\<lambda>(root, dirs, files).
                    map (Pair root) (filter (\<lambda>x. endswith x ''.json'') files)) w)"

definition visited_sidecars :: "env \<Rightarrow> string list \<Rightarrow> (string \<times> string) list" where
  "visited_sidecars e paths =
     concat (map (\<lambda>p. if os_path_exists e p then walk_sidecars (os_walk e p) else []) paths)"

definition all_sidecars_load :: "'f pylib \<Rightarrow> env \<Rightarrow> bool" where
  "all_sidecars_load lib e =
     list_all (\<lambda>(root, file). \<not> isl (process_sidecar lib e root file))
       (visited_sidecars e (lora_search_path e))"

text \<open>The rows the visited sidecars contribute when none of them raises.\<close>

definition sidecar_rows :: "'f pylib \<Rightarrow> env \<Rightarrow> (string \<times> string) list \<Rightarrow> 'f lora_row list" where
  "sidecar_rows lib e vs =
     concat (map (\<lambda>(root, file).
                    case process_sidecar lib e root file of
                      Inr (Some row) \<Rightarrow> [row]
                    | _ \<Rightarrow> []) vs)"

text \<open>Every row can be written, and the text the rows then make.\<close>

definition all_rows_write :: "'f pylib \<Rightarrow> 'f lora_row list \<Rightarrow> bool" where
  "all_rows_write lib rows = list_all (\<lambda>row. \<not> isl (csv_writerow lib row)) rows"

definition csv_text :: "'f pylib \<Rightarrow> 'f lora_row list \<Rightarrow> string" where
  "csv_text lib rows =
     concat (map (\<lambda>row. case csv_writerow lib row of Inr line \<Rightarrow> line | Inl err \<Rightarrow> []) rows)"

section \<open>A sample library and sample file systems\<close>

text \<open>
  A float is represented by its \<^verbatim>\<open>repr\<close>, which determines it. Each operation of
  \<open>sample_lib\<close> agrees with CPython on the values the examples below pass to it:
  \<open>sample_json_loads\<close> knows the listed texts and takes any other text used here as
  undecodable, \<open>float\<close> of a small int is its decimal digits followed by \<^verbatim>\<open>.0\<close>, and the
  CSV line of a row whose fields need no quoting is the fields joined by commas and ended
  by CR LF.
\<close>

function show_nat :: "nat \<Rightarrow> string" where
  "show_nat n =
     (if n < 10 then [char_of (48 + n)] else show_nat (n div 10) @ [char_of (48 + n mod 10)])"
  by pat_completeness auto
termination
  by (relation "measure (\<lambda>n. n)") auto

definition show_int :: "int \<Rightarrow> string" where
  "show_int i = (if i < 0 then ''-'' @ show_nat (nat (- i)) else show_nat (nat i))"

definition sample_json_loads :: "string \<Rightarrow> py_error + string pyval" where
  \<open>sample_json_loads s =
     (case map_of
        [(''{"activation text": "foo tag", "preferred weight": 0.8}'',
            PDict [(''activation text'', PStr ''foo tag''), (''preferred weight'', PFloat ''0.8'')]),
         (''{"activation text": "bar tag"}'',
            PDict [(''activation text'', PStr ''bar tag'')]),
         (''{"activation text": "nil tag", "preferred weight": 0}'',
            PDict [(''activation text'', PStr ''nil tag''), (''preferred weight'', PInt 0)]),
         (''{"notes": "no trigger words"}'',
            PDict [(''notes'', PStr ''no trigger words'')]),
         (''{"activation text": "baz tag", "preferred weight": "heavy"}'',
            PDict [(''activation text'', PStr ''baz tag''), (''preferred weight'', PStr ''heavy'')]),
         (''{"hf_datasets": [{"last_remote_check_timestamp": "2025-01-01T00:00:00"}]}'',
            PDict [(''hf_datasets'',
                    PList [PDict [(''last_remote_check_timestamp'', PStr ''2025-01-01T00:00:00'')]])]),
         (''{"hf_datasets": [{}]}'', PDict [(''hf_datasets'', PList [PDict []])]),
         (''{"hf_datasets": []}'', PDict [(''hf_datasets'', PList [])]),
         (''{}'', PDict []),
         (''[]'', PList [])] s of
        Some v \<Rightarrow> Inr v
      | None \<Rightarrow> Inl JSONDecodeError)\<close>

definition sample_format_other :: "string pyval \<Rightarrow> string" where
  "sample_format_other v =
     (case v of
        PNone \<Rightarrow> ''None''
      | PBool b \<Rightarrow> (if b then ''True'' else ''False'')
      | PInt i \<Rightarrow> show_int i
      | _ \<Rightarrow> [])"

definition sample_writerow :: "string \<times> string pyval \<times> string \<Rightarrow> py_error + string" where
  "sample_writerow row =
     (case row of
        (name, text, preview) \<Rightarrow>
          Inr (name @ '','' @ (case text of PStr s \<Rightarrow> s | PNone \<Rightarrow> [] | v \<Rightarrow> sample_format_other v)
                 @ '','' @ preview @ [CHR 0x0D, CHR 0x0A]))"

definition sample_lib :: "string pylib" where
  "sample_lib =
     \<lparr>json_loads = sample_json_loads,
      float_of_int = (\<lambda>i. Inr (show_int i @ ''.0'')),
      float_of_str = (\<lambda>s. if s = ''0.8'' then Inr ''0.8'' else Inl ValueError),
      float_nonzero = (\<lambda>x. x \<notin> set [''0.0'', ''-0.0'']),
      format_float = (\<lambda>x. x),
      format_other = sample_format_other,
      str_of_error = (\<lambda>err. ''error''),
      int_of_str = (\<lambda>s. Inl ValueError),
      csv_writerow = sample_writerow\<rparr>"

text \<open>
  The data directory of the specification's example with three more files, a metadata
  file, and one LoRA root with four sidecars.
\<close>

definition sample_listing :: "string list" where
  "sample_listing =
     [''danbooru_tags.csv'', ''danbooru_tags_extra1.csv'', ''e621_tags_cooccurrence.csv'',
      ''danbooru_Tags_Cooccurrence_backup.csv'', ''danbooru_notes.csv'',
      ''my_danbooru_tags.csv'', ''danbooru_tags_gone.csv'']"

definition sample_nodes :: "string \<Rightarrow> node option" where
  \<open>sample_nodes =
     map_of
       [(''/data'', Directory),
        (''/data/danbooru_tags.csv'', File ''1girl,0,100''),
        (''/data/danbooru_tags_extra1.csv'', File ''my_tag,0,1''),
        (''/data/e621_tags_cooccurrence.csv'', File ''a,b,3''),
        (''/data/danbooru_Tags_Cooccurrence_backup.csv'', File ''c,d,4''),
        (''/data/danbooru_notes.csv'', File ''n''),
        (''/data/my_danbooru_tags.csv'', File ''m''),
        (''/data/csv_meta.json'',
           File ''{"hf_datasets": [{"last_remote_check_timestamp": "2025-01-01T00:00:00"}]}''),
        (''/loras'', Directory),
        (''/loras/foo.json'', File ''{"activation text": "foo tag", "preferred weight": 0.8}''),
        (''/loras/foo.png'', File ''PNG''),
        (''/loras/sub'', Directory),
        (''/loras/sub/bar.json'', File ''{"activation text": "bar tag"}''),
        (''/loras/sub/nil.json'', File ''{"activation text": "nil tag", "preferred weight": 0}''),
        (''/loras/sub/plain.json'', File ''{"notes": "no trigger words"}''),
        (''/broken'', Directory),
        (''/broken/bad.json'', File ''not json''),
        (''/heavy'', Directory),
        (''/heavy/baz.json'', File ''{"activation text": "baz tag", "preferred weight": "heavy"}'')]\<close>

definition sample_walk :: "string \<Rightarrow> (string \<times> string list \<times> string list) list" where
  "sample_walk lora_path =
     (if lora_path = ''/loras''
      then [(''/loras'', [''sub''], [''foo.json'', ''foo.png'']),
            (''/loras/sub'', [], [''bar.json'', ''nil.json'', ''plain.json''])]
      else if lora_path = ''/broken'' then [(''/broken'', [], [''bad.json''])]
      else if lora_path = ''/heavy'' then [(''/heavy'', [], [''baz.json''])]
      else [])"

definition sample_env :: env where
  "sample_env =
     \<lparr>nodes = sample_nodes,
      os_listdir = (\<lambda>d. if d = ''/data'' then Inr sample_listing else Inl OSError),
      os_walk = sample_walk,
      writable = (\<lambda>p. True),
      DATA_DIR = ''/data'',
      CSV_META_FILE = ''/data/csv_meta.json'',
      lora_search_path = [''/missing'', ''/loras'']\<rparr>"

text \<open>The same file system with the metadata file replaced, or removed.\<close>

definition meta_env :: "node option \<Rightarrow> env" where
  "meta_env n = sample_env\<lparr>nodes := (nodes sample_env)(''/data/csv_meta.json'' := n)\<rparr>"

text \<open>The same file system with other LoRA roots configured.\<close>

definition lora_env :: "string list \<Rightarrow> env" where
  "lora_env paths = sample_env\<lparr>lora_search_path := paths\<rparr>"

section \<open>The scanner's loop as two filters\<close>

lemma classify_extra_filter:
  "classify_extra prefix xs (t, c) =
     (t @ filter (\<lambda>f. f \<notin> set [base_file prefix TAGS_SUFFIX, base_file prefix COOCCURRENCE_SUFFIX]
                      \<and> \<not> substr_in COOCCURRENCE_SUFFIX (lower f)
                      \<and> substr_in TAGS_SUFFIX (lower f)) xs,
      c @ filter (\<lambda>f. f \<notin> set [base_file prefix TAGS_SUFFIX, base_file prefix COOCCURRENCE_SUFFIX]
                      \<and> substr_in COOCCURRENCE_SUFFIX (lower f)) xs)"
  by (induction xs arbitrary: t c) simp_all

lemma classify_extra_candidates:
  "classify_extra prefix (all_csv_files prefix listing) ([], []) =
     (filter (\<lambda>f. \<not> substr_in COOCCURRENCE_SUFFIX (lower f) \<and> substr_in TAGS_SUFFIX (lower f))
        (extra_candidates prefix listing),
      filter (\<lambda>f. substr_in COOCCURRENCE_SUFFIX (lower f)) (extra_candidates prefix listing))"
  by (simp add: classify_extra_filter extra_candidates_def conj_commute conj_left_commute)

lemma scan_prefix_listing:
  assumes "os_listdir e (DATA_DIR e) = Inr listing"
  shows "scan_prefix e prefix =
     Inr (PDict
       [(''base_tags'',
           PBool (os_path_exists e (path_join (DATA_DIR e) (base_file prefix TAGS_SUFFIX)))),
        (''extra_tags'',
           PList (map PStr (filter (\<lambda>f. \<not> substr_in COOCCURRENCE_SUFFIX (lower f)
                                        \<and> substr_in TAGS_SUFFIX (lower f))
                              (extra_candidates prefix listing)))),
        (''base_cooccurrence'',
           PBool (os_path_exists e (path_join (DATA_DIR e) (base_file prefix COOCCURRENCE_SUFFIX)))),
        (''extra_cooccurrence'',
           PList (map PStr (filter (\<lambda>f. substr_in COOCCURRENCE_SUFFIX (lower f))
                              (extra_candidates prefix listing))))])"
  using assms by (simp add: scan_prefix_def classify_extra_candidates)

section \<open>The base-file endpoint\<close>

text \<open>
  Claim C1. For the base-file endpoint the response has status 400 when the source is
  outside \<open>{danbooru, e621, lora}\<close> or the suffix outside \<open>{tags, tags_cooccurrence}\<close>.
  For a valid source and suffix the status is 404 if and only if nothing exists at
  \<^verbatim>\<open>{source}_{suffix}.csv\<close> in the data directory, and when that file is there the
  response is the file response for it: status 200 and the bytes of the file.
\<close>

theorem get_base_tags_file_response:
  "(source \<notin> set [DANBOORU_PREFIX, E621_PREFIX, LORA_PREFIX]
      \<or> suffix \<notin> set [TAGS_SUFFIX, COOCCURRENCE_SUFFIX]
     \<longrightarrow> status_of e (get_base_tags_file e source suffix) = Some 400)
   \<and> (source \<in> set [DANBOORU_PREFIX, E621_PREFIX, LORA_PREFIX]
      \<and> suffix \<in> set [TAGS_SUFFIX, COOCCURRENCE_SUFFIX]
     \<longrightarrow> (status_of e (get_base_tags_file e source suffix) = Some 404
           \<longleftrightarrow> nodes e (path_join (DATA_DIR e) (base_file source suffix)) = None)
         \<and> (\<forall>b. nodes e (path_join (DATA_DIR e) (base_file source suffix)) = Some (File b)
              \<longrightarrow> get_base_tags_file e source suffix
                    = FileResponse (path_join (DATA_DIR e) (base_file source suffix))
                  \<and> status_of e (get_base_tags_file e source suffix) = Some 200
                  \<and> sent_bytes e (get_base_tags_file e source suffix) = Some b))"
proof -
  let ?p = "path_join (DATA_DIR e) (base_file source suffix)"
  have invalid: "status_of e (get_base_tags_file e source suffix) = Some 400"
    if "source \<notin> set [DANBOORU_PREFIX, E621_PREFIX, LORA_PREFIX]
        \<or> suffix \<notin> set [TAGS_SUFFIX, COOCCURRENCE_SUFFIX]"
    using that unfolding get_base_tags_file_def by (simp only: if_True status_of.simps)
  have valid: "get_base_tags_file e source suffix =
      (if nodes e ?p = None
       then JsonResponse 404 (PDict [(''error'', PStr ''Base tags file not found'')])
       else FileResponse ?p)"
    if "source \<in> set [DANBOORU_PREFIX, E621_PREFIX, LORA_PREFIX]
        \<and> suffix \<in> set [TAGS_SUFFIX, COOCCURRENCE_SUFFIX]"
    using that unfolding get_base_tags_file_def os_path_exists_def Let_def by simp
  show ?thesis
  proof (intro conjI impI allI)
    assume "source \<notin> set [DANBOORU_PREFIX, E621_PREFIX, LORA_PREFIX]
        \<or> suffix \<notin> set [TAGS_SUFFIX, COOCCURRENCE_SUFFIX]"
    then show "status_of e (get_base_tags_file e source suffix) = Some 400" by (rule invalid)
  next
    assume v: "source \<in> set [DANBOORU_PREFIX, E621_PREFIX, LORA_PREFIX]
        \<and> suffix \<in> set [TAGS_SUFFIX, COOCCURRENCE_SUFFIX]"
    show "status_of e (get_base_tags_file e source suffix) = Some 404 \<longleftrightarrow> nodes e ?p = None"
      by (simp add: valid[OF v] split: option.splits node.splits)
  next
    fix b
    assume v: "source \<in> set [DANBOORU_PREFIX, E621_PREFIX, LORA_PREFIX]
        \<and> suffix \<in> set [TAGS_SUFFIX, COOCCURRENCE_SUFFIX]"
      and f: "nodes e ?p = Some (File b)"
    show "get_base_tags_file e source suffix = FileResponse ?p" by (simp add: valid[OF v] f)
    show "status_of e (get_base_tags_file e source suffix) = Some 200" by (simp add: valid[OF v] f)
    show "sent_bytes e (get_base_tags_file e source suffix) = Some b" by (simp add: valid[OF v] f)
  qed
qed

theorem get_base_tags_file_response_witness:
  "status_of sample_env (get_base_tags_file sample_env ''danbooru'' ''tags'' :: string response) = Some 200
   \<and> sent_bytes sample_env (get_base_tags_file sample_env ''danbooru'' ''tags'' :: string response)
       = Some ''1girl,0,100''
   \<and> status_of sample_env (get_base_tags_file sample_env ''e621'' ''tags'' :: string response) = Some 404
   \<and> status_of sample_env (get_base_tags_file sample_env ''lora'' ''extra'' :: string response) = Some 400"
proof -
  have p1: "nodes sample_env (path_join (DATA_DIR sample_env) (base_file ''danbooru'' ''tags''))
      = Some (File ''1girl,0,100'')"
    by (simp add: path_join_def base_file_def sample_env_def endswith_def sample_nodes_def)
  have p2: "nodes sample_env (path_join (DATA_DIR sample_env) (base_file ''e621'' ''tags'')) = None"
    by (simp add: path_join_def base_file_def sample_env_def endswith_def sample_nodes_def)
  have v1: "''danbooru'' \<in> set [DANBOORU_PREFIX, E621_PREFIX, LORA_PREFIX]
        \<and> ''tags'' \<in> set [TAGS_SUFFIX, COOCCURRENCE_SUFFIX]"
    by (simp add: DANBOORU_PREFIX_def TAGS_SUFFIX_def)
  have v2: "''e621'' \<in> set [DANBOORU_PREFIX, E621_PREFIX, LORA_PREFIX]
        \<and> ''tags'' \<in> set [TAGS_SUFFIX, COOCCURRENCE_SUFFIX]"
    by (simp add: E621_PREFIX_def TAGS_SUFFIX_def)
  have v3: "''lora'' \<notin> set [DANBOORU_PREFIX, E621_PREFIX, LORA_PREFIX]
        \<or> ''extra'' \<notin> set [TAGS_SUFFIX, COOCCURRENCE_SUFFIX]"
    by (simp add: TAGS_SUFFIX_def COOCCURRENCE_SUFFIX_def)
  note t1 = get_base_tags_file_response[of "''danbooru''" "''tags''" sample_env, where 'a = string]
  note t2 = get_base_tags_file_response[of "''e621''" "''tags''" sample_env, where 'a = string]
  note t3 = get_base_tags_file_response[of "''lora''" "''extra''" sample_env, where 'a = string]
  have a: "status_of sample_env (get_base_tags_file sample_env ''danbooru'' ''tags'' :: string response)
        = Some 200
      \<and> sent_bytes sample_env (get_base_tags_file sample_env ''danbooru'' ''tags'' :: string response)
        = Some ''1girl,0,100''"
    using t1 v1 p1 by blast
  have b: "status_of sample_env (get_base_tags_file sample_env ''e621'' ''tags'' :: string response)
        = Some 404"
    using t2 v2 p2 by blast
  have c: "status_of sample_env (get_base_tags_file sample_env ''lora'' ''extra'' :: string response)
        = Some 400"
    using t3 v3 by blast
  from a b c show ?thesis by blast
qed

lemma get_csv_file_status_listing:
  assumes "os_listdir e (DATA_DIR e) = Inr listing"
  shows "\<exists>d s. scan_prefix e DANBOORU_PREFIX = Inr d \<and> scan_prefix e E621_PREFIX = Inr s
           \<and> get_csv_file_status e = Inr (PDict [(DANBOORU_PREFIX, d), (E621_PREFIX, s)])"
  by (simp add: get_csv_file_status_def scan_prefix_listing[OF assms])

lemma prefixes_differ: "DANBOORU_PREFIX \<noteq> E621_PREFIX"
  by (simp add: DANBOORU_PREFIX_def E621_PREFIX_def)

lemma extra_key_tags: "''extra_'' @ TAGS_SUFFIX = ''extra_tags''"
  by (simp add: TAGS_SUFFIX_def)

lemma extra_key_cooccurrence: "''extra_'' @ COOCCURRENCE_SUFFIX = ''extra_tags_cooccurrence''"
  by (simp add: COOCCURRENCE_SUFFIX_def)

lemma scan_prefix_no_such_key:
  assumes "os_listdir e (DATA_DIR e) = Inr listing"
    and "scan_prefix e prefix = Inr entry"
  shows "py_getitem entry ''extra_tags_cooccurrence'' = Inl KeyError"
  using assms(2) unfolding scan_prefix_listing[OF assms(1)] by auto

lemma status_lookup_source:
  assumes "source \<in> set [DANBOORU_PREFIX, E621_PREFIX]"
  shows "py_getitem (PDict [(DANBOORU_PREFIX, d), (E621_PREFIX, s)]) source
           = Inr (if source = DANBOORU_PREFIX then d else s)"
  using assms prefixes_differ by auto

section \<open>The extra-file endpoint\<close>

text \<open>
  Claim C2. The extra-file endpoint is to answer, for a source in \<open>{danbooru, e621}\<close>, a
  suffix in \<open>{tags, tags_cooccurrence}\<close> and an integer index, with the file at that
  position of the scanner's list or with 404. For the suffix \<^verbatim>\<open>tags_cooccurrence\<close> the code
  looks up the key \<^verbatim>\<open>extra_tags_cooccurrence\<close>, which the scanner's entry does not have (its
  key is \<^verbatim>\<open>extra_cooccurrence\<close>): whenever the data directory can be listed and the index
  is a non-negative integer, the handler raises \<^verbatim>\<open>KeyError\<close>, which its
  \<^verbatim>\<open>except ValueError\<close> does not catch. The lemmas after the theorem show that the suffix
  \<^verbatim>\<open>tags\<close>, an invalid source or suffix and a malformed index are answered as the claim says.
\<close>

theorem get_extra_tags_file_cooccurrence_KeyError:
  assumes "os_listdir e (DATA_DIR e) = Inr listing"
    and "source \<in> set [DANBOORU_PREFIX, E621_PREFIX]"
    and "py_int lib index_str = Inr i"
    and "0 \<le> i"
  shows "get_extra_tags_file lib e source COOCCURRENCE_SUFFIX index_str = Inl KeyError"
proof -
  obtain d s where d: "scan_prefix e DANBOORU_PREFIX = Inr (d :: 'a pyval)"
    and s: "scan_prefix e E621_PREFIX = Inr s"
    and st: "get_csv_file_status e = Inr (PDict [(DANBOORU_PREFIX, d), (E621_PREFIX, s)])"
    using get_csv_file_status_listing[OF assms(1)] by blast
  let ?entry = "if source = DANBOORU_PREFIX then d else s"
  have k: "py_getitem ?entry ''extra_tags_cooccurrence'' = Inl KeyError"
    using scan_prefix_no_such_key[OF assms(1) d] scan_prefix_no_such_key[OF assms(1) s] by simp
  have body: "get_extra_tags_file_body lib e source COOCCURRENCE_SUFFIX index_str
                = (Inl KeyError :: py_error + 'a response)"
    unfolding get_extra_tags_file_body_def
    using assms(2,3,4) k
    by (simp add: st bind_err_def status_lookup_source[OF assms(2)] COOCCURRENCE_SUFFIX_def
        TAGS_SUFFIX_def del: py_getitem.simps)
  show ?thesis
    unfolding get_extra_tags_file_def body by (simp add: is_ValueError_def)
qed

lemma sample_listdir: "os_listdir sample_env (DATA_DIR sample_env) = Inr sample_listing"
  by (simp add: sample_env_def)

lemma py_int_zero: "py_int lib ''0'' = Inr 0"
  by (simp add: py_int_def ascii_int_def is_ascii_def strip_def is_space_def parse_unsigned_def
      is_digit_def)

theorem get_extra_tags_file_cooccurrence_KeyError_witness:
  "get_extra_tags_file sample_lib sample_env ''danbooru'' ''tags_cooccurrence'' ''0'' = Inl KeyError"
proof -
  have src: "''danbooru'' \<in> set [DANBOORU_PREFIX, E621_PREFIX]"
    by (simp add: DANBOORU_PREFIX_def)
  have "get_extra_tags_file sample_lib sample_env ''danbooru'' COOCCURRENCE_SUFFIX ''0'' = Inl KeyError"
    using get_extra_tags_file_cooccurrence_KeyError[OF sample_listdir src py_int_zero] by simp
  then show ?thesis by (simp add: COOCCURRENCE_SUFFIX_def)
qed


lemma scan_prefix_extra_tags:
  assumes "os_listdir e (DATA_DIR e) = Inr listing"
    and "scan_prefix e prefix = Inr entry"
  shows "py_getitem entry ''extra_tags''
     = Inr (PList (map PStr (filter (\<lambda>f. \<not> substr_in COOCCURRENCE_SUFFIX (lower f)
                                        \<and> substr_in TAGS_SUFFIX (lower f))
                              (extra_candidates prefix listing))))"
  using assms(2) unfolding scan_prefix_listing[OF assms(1)] by auto

lemma get_extra_tags_file_tags:
  assumes "os_listdir e (DATA_DIR e) = Inr listing"
    and "source \<in> set [DANBOORU_PREFIX, E621_PREFIX]"
    and "py_int lib index_str = Inr i"
    and "xs = filter (\<lambda>f. \<not> substr_in COOCCURRENCE_SUFFIX (lower f) \<and> substr_in TAGS_SUFFIX (lower f))
                (extra_candidates source listing)"
  shows "get_extra_tags_file lib e source TAGS_SUFFIX index_str =
     Inr (if i < 0 \<or> i \<ge> int (length xs)
          then JsonResponse 404 (PDict [(''error'', PStr ''Invalid index'')])
          else if \<not> os_path_exists e (path_join (DATA_DIR e) (xs ! nat i))
          then JsonResponse 404 (PDict [(''error'', PStr ''Extra tags file not found'')])
          else FileResponse (path_join (DATA_DIR e) (xs ! nat i)))"
proof -
  obtain d s where d: "scan_prefix e DANBOORU_PREFIX = Inr (d :: 'a pyval)"
    and s: "scan_prefix e E621_PREFIX = Inr s"
    and st: "get_csv_file_status e = Inr (PDict [(DANBOORU_PREFIX, d), (E621_PREFIX, s)])"
    using get_csv_file_status_listing[OF assms(1)] by blast
  let ?entry = "if source = DANBOORU_PREFIX then d else s"
  have sp: "scan_prefix e source = Inr ?entry"
    using assms(2) d s by auto
  have k: "py_getitem ?entry ''extra_tags'' = Inr (PList (map PStr xs))"
    using scan_prefix_extra_tags[OF assms(1) sp] assms(4) by simp
  have body: "get_extra_tags_file_body lib e source TAGS_SUFFIX index_str =
     (Inr (if i < 0 \<or> i \<ge> int (length xs)
          then JsonResponse 404 (PDict [(''error'', PStr ''Invalid index'')])
          else if \<not> os_path_exists e (path_join (DATA_DIR e) (xs ! nat i))
          then JsonResponse 404 (PDict [(''error'', PStr ''Extra tags file not found'')])
          else FileResponse (path_join (DATA_DIR e) (xs ! nat i))) :: py_error + 'a response)"
    unfolding get_extra_tags_file_body_def
    using assms(2,3) k
    by (simp add: st bind_err_def status_lookup_source[OF assms(2)] COOCCURRENCE_SUFFIX_def
        TAGS_SUFFIX_def Let_def del: py_getitem.simps)
  show ?thesis
    unfolding get_extra_tags_file_def body by simp
qed

lemma get_extra_tags_file_invalid:
  assumes "os_listdir e (DATA_DIR e) = Inr listing"
    and "source \<notin> set [DANBOORU_PREFIX, E621_PREFIX]
         \<or> suffix \<notin> set [TAGS_SUFFIX, COOCCURRENCE_SUFFIX]"
  shows "get_extra_tags_file lib e source suffix index_str =
     Inr (JsonResponse 400 (PDict [(''error'', PStr ''Invalid tag source or suffix'')]))"
proof -
  obtain st where st: "get_csv_file_status e = Inr (st :: 'a pyval)"
    using get_csv_file_status_listing[OF assms(1)] by blast
  have "get_extra_tags_file_body lib e source suffix index_str =
     (Inr (JsonResponse 400 (PDict [(''error'', PStr ''Invalid tag source or suffix'')]))
       :: py_error + 'a response)"
    unfolding get_extra_tags_file_body_def using assms(2)
    by (simp only: st bind_err_def sum.case if_True)
  then show ?thesis unfolding get_extra_tags_file_def by simp
qed

lemma get_extra_tags_file_malformed:
  assumes "os_listdir e (DATA_DIR e) = Inr listing"
    and "source \<in> set [DANBOORU_PREFIX, E621_PREFIX]"
    and "suffix \<in> set [TAGS_SUFFIX, COOCCURRENCE_SUFFIX]"
    and "py_int lib index_str = Inl ValueError"
  shows "get_extra_tags_file lib e source suffix index_str =
     Inr (JsonResponse 400 (PDict [(''error'', PStr ''Invalid index format'')]))"
proof -
  obtain st where st: "get_csv_file_status e = Inr (st :: 'a pyval)"
    using get_csv_file_status_listing[OF assms(1)] by blast
  have "get_extra_tags_file_body lib e source suffix index_str =
     (Inl ValueError :: py_error + 'a response)"
    unfolding get_extra_tags_file_body_def using assms(2,3,4)
    by (simp add: st bind_err_def)
  then show ?thesis unfolding get_extra_tags_file_def by (simp add: is_ValueError_def)
qed

lemma ascii_int_error: "ascii_int s = Inl err \<Longrightarrow> err = ValueError"
  by (auto simp: ascii_int_def split: list.splits if_splits option.splits)

section \<open>Classification of the extra files\<close>

text \<open>
  Claim C3. Every candidate extra file (a file of \<open>all_csv_files\<close> that is not a base
  file) is put into the cooccurrence list when its lowercased name contains
  \<^verbatim>\<open>tags_cooccurrence\<close>, and then not into the tags list; otherwise into the tags list
  when its lowercased name contains \<^verbatim>\<open>tags\<close>; otherwise into neither list. The lists
  are those of the entry the scanner returns for the prefix.
\<close>

theorem classify_by_suffix:
  assumes "os_listdir e (DATA_DIR e) = Inr listing"
    and "filename \<in> set (extra_candidates prefix listing)"
  shows "\<exists>base_tags tags_extra base_cooc cooc_extra.
     scan_prefix e prefix =
       Inr (PDict [(''base_tags'', PBool base_tags),
                   (''extra_tags'', PList (map PStr tags_extra)),
                   (''base_cooccurrence'', PBool base_cooc),
                   (''extra_cooccurrence'', PList (map PStr cooc_extra))])
     \<and> classify_extra prefix (all_csv_files prefix listing) ([], []) = (tags_extra, cooc_extra)
     \<and> (substr_in COOCCURRENCE_SUFFIX (lower filename)
          \<longrightarrow> filename \<in> set cooc_extra \<and> filename \<notin> set tags_extra)
     \<and> (\<not> substr_in COOCCURRENCE_SUFFIX (lower filename) \<and> substr_in TAGS_SUFFIX (lower filename)
          \<longrightarrow> filename \<in> set tags_extra \<and> filename \<notin> set cooc_extra)
     \<and> (\<not> substr_in COOCCURRENCE_SUFFIX (lower filename) \<and> \<not> substr_in TAGS_SUFFIX (lower filename)
          \<longrightarrow> filename \<notin> set tags_extra \<and> filename \<notin> set cooc_extra)"
proof -
  let ?t = "filter (\<lambda>f. \<not> substr_in COOCCURRENCE_SUFFIX (lower f) \<and> substr_in TAGS_SUFFIX (lower f))
              (extra_candidates prefix listing)"
  let ?c = "filter (\<lambda>f. substr_in COOCCURRENCE_SUFFIX (lower f)) (extra_candidates prefix listing)"
  have out: "scan_prefix e prefix =
       Inr (PDict [(''base_tags'',
                      PBool (os_path_exists e (path_join (DATA_DIR e) (base_file prefix TAGS_SUFFIX)))),
                   (''extra_tags'', PList (map PStr ?t)),
                   (''base_cooccurrence'',
                      PBool (os_path_exists e
                        (path_join (DATA_DIR e) (base_file prefix COOCCURRENCE_SUFFIX)))),
                   (''extra_cooccurrence'', PList (map PStr ?c))])"
    by (rule scan_prefix_listing[OF assms(1)])
  have cls: "classify_extra prefix (all_csv_files prefix listing) ([], []) = (?t, ?c)"
    by (rule classify_extra_candidates)
  have a: "substr_in COOCCURRENCE_SUFFIX (lower filename)
          \<longrightarrow> filename \<in> set ?c \<and> filename \<notin> set ?t"
    using assms(2) by simp
  have b: "\<not> substr_in COOCCURRENCE_SUFFIX (lower filename) \<and> substr_in TAGS_SUFFIX (lower filename)
          \<longrightarrow> filename \<in> set ?t \<and> filename \<notin> set ?c"
    using assms(2) by simp
  have c: "\<not> substr_in COOCCURRENCE_SUFFIX (lower filename) \<and> \<not> substr_in TAGS_SUFFIX (lower filename)
          \<longrightarrow> filename \<notin> set ?t \<and> filename \<notin> set ?c"
    by simp
  from out cls a b c show ?thesis by blast
qed

lemma sample_backup_candidate:
  "''danbooru_Tags_Cooccurrence_backup.csv'' \<in> set (extra_candidates DANBOORU_PREFIX sample_listing)"
  by (simp add: extra_candidates_def all_csv_files_def sample_listing_def
      DANBOORU_PREFIX_def base_file_def TAGS_SUFFIX_def COOCCURRENCE_SUFFIX_def endswith_def)

lemma sample_backup_cooccurrence:
  "substr_in COOCCURRENCE_SUFFIX (lower ''danbooru_Tags_Cooccurrence_backup.csv'')"
  by code_simp

theorem classify_by_suffix_witness:
  "\<exists>tags_extra cooc_extra.
     classify_extra DANBOORU_PREFIX (all_csv_files DANBOORU_PREFIX sample_listing) ([], [])
       = (tags_extra, cooc_extra)
     \<and> ''danbooru_Tags_Cooccurrence_backup.csv'' \<in> set cooc_extra
     \<and> ''danbooru_Tags_Cooccurrence_backup.csv'' \<notin> set tags_extra"
  using classify_by_suffix[OF sample_listdir sample_backup_candidate, where 'a = string]
    sample_backup_cooccurrence
  by blast

section \<open>The files in the scanner's extra lists\<close>

text \<open>
  Claim C4, as amended. For each source, when the data directory can be listed, the files
  the scanner returns in its two extra lists are exactly the files of the directory whose
  names \<^emph>\<open>start with\<close> the source prefix and end in \<^verbatim>\<open>.csv\<close>, without the two base files
  \<^verbatim>\<open>{source}_tags.csv\<close> and \<^verbatim>\<open>{source}_tags_cooccurrence.csv\<close>, that match one of the two role
  suffixes; the other such files are the candidates that match neither suffix and are
  dropped. (The claim says \<^emph>\<open>contain\<close> the prefix; the counterexample below is a file of
  the directory that contains the prefix, ends in \<^verbatim>\<open>.csv\<close>, is no base file and matches
  the suffix \<^verbatim>\<open>tags\<close>, and is in neither list.)
\<close>

theorem scanner_extra_files_startswith:
  assumes "os_listdir e (DATA_DIR e) = Inr listing"
  shows "\<exists>base_tags tags_extra base_cooc cooc_extra.
     scan_prefix e prefix =
       Inr (PDict [(''base_tags'', PBool base_tags),
                   (''extra_tags'', PList (map PStr tags_extra)),
                   (''base_cooccurrence'', PBool base_cooc),
                   (''extra_cooccurrence'', PList (map PStr cooc_extra))])
     \<and> set tags_extra \<union> set cooc_extra =
         {f \<in> set listing. startswith f prefix \<and> endswith f ''.csv''
             \<and> (substr_in COOCCURRENCE_SUFFIX (lower f) \<or> substr_in TAGS_SUFFIX (lower f))}
           - {base_file prefix TAGS_SUFFIX, base_file prefix COOCCURRENCE_SUFFIX}"
proof -
  let ?t = "filter (\<lambda>f. \<not> substr_in COOCCURRENCE_SUFFIX (lower f) \<and> substr_in TAGS_SUFFIX (lower f))
              (extra_candidates prefix listing)"
  let ?c = "filter (\<lambda>f. substr_in COOCCURRENCE_SUFFIX (lower f)) (extra_candidates prefix listing)"
  have out: "scan_prefix e prefix =
       Inr (PDict [(''base_tags'',
                      PBool (os_path_exists e (path_join (DATA_DIR e) (base_file prefix TAGS_SUFFIX)))),
                   (''extra_tags'', PList (map PStr ?t)),
                   (''base_cooccurrence'',
                      PBool (os_path_exists e
                        (path_join (DATA_DIR e) (base_file prefix COOCCURRENCE_SUFFIX)))),
                   (''extra_cooccurrence'', PList (map PStr ?c))])"
    by (rule scan_prefix_listing[OF assms])
  have members: "set ?t \<union> set ?c =
         {f \<in> set listing. startswith f prefix \<and> endswith f ''.csv''
             \<and> (substr_in COOCCURRENCE_SUFFIX (lower f) \<or> substr_in TAGS_SUFFIX (lower f))}
           - {base_file prefix TAGS_SUFFIX, base_file prefix COOCCURRENCE_SUFFIX}"
    by (auto simp: extra_candidates_def all_csv_files_def)
  from out members show ?thesis by blast
qed

lemma sample_scan_danbooru:
  "(scan_prefix sample_env DANBOORU_PREFIX :: py_error + string pyval) =
     Inr (PDict [(''base_tags'', PBool True),
                 (''extra_tags'',
                    PList [PStr ''danbooru_tags_extra1.csv'', PStr ''danbooru_tags_gone.csv'']),
                 (''base_cooccurrence'', PBool False),
                 (''extra_cooccurrence'', PList [PStr ''danbooru_Tags_Cooccurrence_backup.csv''])])"
  by code_simp

theorem scanner_contains_prefix_counterexample:
  "os_listdir sample_env (DATA_DIR sample_env) = Inr sample_listing
   \<and> ''my_danbooru_tags.csv'' \<in> set (spec_candidates DANBOORU_PREFIX sample_listing)
   \<and> substr_in TAGS_SUFFIX (lower ''my_danbooru_tags.csv'')
   \<and> (scan_prefix sample_env DANBOORU_PREFIX :: py_error + string pyval) =
        Inr (PDict [(''base_tags'', PBool True),
                    (''extra_tags'',
                       PList [PStr ''danbooru_tags_extra1.csv'', PStr ''danbooru_tags_gone.csv'']),
                    (''base_cooccurrence'', PBool False),
                    (''extra_cooccurrence'',
                       PList [PStr ''danbooru_Tags_Cooccurrence_backup.csv''])])"
  by code_simp

theorem scanner_extra_files_startswith_witness:
  "\<exists>tags_extra cooc_extra.
     (scan_prefix sample_env DANBOORU_PREFIX :: py_error + string pyval) =
       Inr (PDict [(''base_tags'', PBool True),
                   (''extra_tags'', PList (map PStr tags_extra)),
                   (''base_cooccurrence'', PBool False),
                   (''extra_cooccurrence'', PList (map PStr cooc_extra))])
     \<and> ''danbooru_tags_extra1.csv'' \<in> set tags_extra \<union> set cooc_extra
     \<and> ''danbooru_tags.csv'' \<notin> set tags_extra \<union> set cooc_extra
     \<and> ''my_danbooru_tags.csv'' \<notin> set tags_extra \<union> set cooc_extra"
proof -
  let ?S = "{f \<in> set sample_listing. startswith f DANBOORU_PREFIX \<and> endswith f ''.csv''
             \<and> (substr_in COOCCURRENCE_SUFFIX (lower f) \<or> substr_in TAGS_SUFFIX (lower f))}
           - {base_file DANBOORU_PREFIX TAGS_SUFFIX, base_file DANBOORU_PREFIX COOCCURRENCE_SUFFIX}"
  obtain base_tags tags_extra base_cooc cooc_extra where
    out: "(scan_prefix sample_env DANBOORU_PREFIX :: py_error + string pyval) =
       Inr (PDict [(''base_tags'', PBool base_tags),
                   (''extra_tags'', PList (map PStr tags_extra)),
                   (''base_cooccurrence'', PBool base_cooc),
                   (''extra_cooccurrence'', PList (map PStr cooc_extra))])"
    and members: "set tags_extra \<union> set cooc_extra = ?S"
    using scanner_extra_files_startswith[OF sample_listdir, of DANBOORU_PREFIX, where 'a = string]
    by blast
  have flags: "base_tags = True" "base_cooc = False"
    using out unfolding sample_scan_danbooru by simp_all
  have a1: "''danbooru_tags_extra1.csv'' \<in> set sample_listing
      \<and> startswith ''danbooru_tags_extra1.csv'' DANBOORU_PREFIX
      \<and> endswith ''danbooru_tags_extra1.csv'' ''.csv''
      \<and> substr_in TAGS_SUFFIX (lower ''danbooru_tags_extra1.csv'')
      \<and> ''danbooru_tags_extra1.csv'' \<noteq> base_file DANBOORU_PREFIX TAGS_SUFFIX
      \<and> ''danbooru_tags_extra1.csv'' \<noteq> base_file DANBOORU_PREFIX COOCCURRENCE_SUFFIX"
    by code_simp
  have a: "''danbooru_tags_extra1.csv'' \<in> ?S" using a1 by simp
  have b1: "''danbooru_tags.csv'' = base_file DANBOORU_PREFIX TAGS_SUFFIX" by code_simp
  have b: "''danbooru_tags.csv'' \<notin> ?S" using b1 by simp
  have c1: "\<not> startswith ''my_danbooru_tags.csv'' DANBOORU_PREFIX" by code_simp
  have c: "''my_danbooru_tags.csv'' \<notin> ?S" using c1 by simp
  from out flags a b c show ?thesis unfolding members[symmetric] by blast
qed

section \<open>The loops of the LoRA synthesizer\<close>

lemma process_files_rows:
  "list_all (\<lambda>file. \<not> isl (process_sidecar lib e root file)) fs \<Longrightarrow>
   process_files lib e root fs acc = Inr (acc @ sidecar_rows lib e (map (Pair root) fs))"
proof (induction fs arbitrary: acc)
  case Nil
  then show ?case by (simp add: sidecar_rows_def)
next
  case (Cons f fs)
  then have ok: "\<not> isl (process_sidecar lib e root f)"
    and rest: "list_all (\<lambda>file. \<not> isl (process_sidecar lib e root file)) fs"
    by simp_all
  show ?case
  proof (cases "process_sidecar lib e root f")
    case (Inl err)
    with ok show ?thesis by simp
  next
    case (Inr r)
    then show ?thesis
      using Cons.IH[OF rest] by (cases r) (simp_all add: sidecar_rows_def)
  qed
qed

lemma process_files_raises:
  "\<not> list_all (\<lambda>file. \<not> isl (process_sidecar lib e root file)) fs \<Longrightarrow>
   \<exists>err. process_files lib e root fs acc = Inl err"
proof (induction fs arbitrary: acc)
  case Nil
  then show ?case by simp
next
  case (Cons f fs)
  show ?case
  proof (cases "process_sidecar lib e root f")
    case (Inl err)
    then show ?thesis by simp
  next
    case (Inr r)
    with Cons.prems have "\<not> list_all (\<lambda>file. \<not> isl (process_sidecar lib e root file)) fs"
      by simp
    from Cons.IH[OF this] show ?thesis using Inr by (cases r) simp_all
  qed
qed

lemma sidecar_rows_append:
  "sidecar_rows lib e (xs @ ys) = sidecar_rows lib e xs @ sidecar_rows lib e ys"
  by (simp add: sidecar_rows_def)

lemma walk_sidecars_Cons:
  "walk_sidecars ((root, dirs, files) # rest) =
     map (Pair root) (filter (\<lambda>x. endswith x ''.json'') files) @ walk_sidecars rest"
  by (simp add: walk_sidecars_def)

lemma list_all_Pair:
  "list_all (\<lambda>(root, file). P root file) (map (Pair root) fs) = list_all (P root) fs"
  by (induction fs) simp_all

lemma process_walk_rows:
  "list_all (\<lambda>(root, file). \<not> isl (process_sidecar lib e root file)) (walk_sidecars w) \<Longrightarrow>
   process_walk lib e w acc = Inr (acc @ sidecar_rows lib e (walk_sidecars w))"
proof (induction w arbitrary: acc)
  case Nil
  then show ?case by (simp add: walk_sidecars_def sidecar_rows_def)
next
  case (Cons t rest)
  obtain root dirs files where t: "t = (root, dirs, files)" by (cases t)
  from Cons.prems have here: "list_all (\<lambda>file. \<not> isl (process_sidecar lib e root file))
        (filter (\<lambda>x. endswith x ''.json'') files)"
    and later: "list_all (\<lambda>(root, file). \<not> isl (process_sidecar lib e root file)) (walk_sidecars rest)"
    by (simp_all add: t walk_sidecars_Cons list_all_Pair)
  show ?case
    by (simp add: t process_files_rows[OF here] Cons.IH[OF later] walk_sidecars_Cons
        sidecar_rows_append)
qed

lemma process_walk_raises:
  "\<not> list_all (\<lambda>(root, file). \<not> isl (process_sidecar lib e root file)) (walk_sidecars w) \<Longrightarrow>
   \<exists>err. process_walk lib e w acc = Inl err"
proof (induction w arbitrary: acc)
  case Nil
  then show ?case by (simp add: walk_sidecars_def)
next
  case (Cons t rest)
  obtain root dirs files where t: "t = (root, dirs, files)" by (cases t)
  show ?case
  proof (cases "list_all (\<lambda>file. \<not> isl (process_sidecar lib e root file))
        (filter (\<lambda>x. endswith x ''.json'') files)")
    case True
    with Cons.prems
    have "\<not> list_all (\<lambda>(root, file). \<not> isl (process_sidecar lib e root file)) (walk_sidecars rest)"
      by (simp add: t walk_sidecars_Cons list_all_Pair)
    from Cons.IH[OF this] show ?thesis
      by (simp add: t process_files_rows[OF True])
  next
    case False
    from process_files_raises[OF False] obtain err where
      "process_files lib e root (filter (\<lambda>x. endswith x ''.json'') files) acc = Inl err" by blast
    then show ?thesis by (simp add: t)
  qed
qed

lemma visited_sidecars_Cons:
  "visited_sidecars e (p # rest) =
     (if os_path_exists e p then walk_sidecars (os_walk e p) else []) @ visited_sidecars e rest"
  by (simp add: visited_sidecars_def)

lemma process_paths_rows:
  "list_all (\<lambda>(root, file). \<not> isl (process_sidecar lib e root file)) (visited_sidecars e paths) \<Longrightarrow>
   process_paths lib e paths acc = Inr (acc @ sidecar_rows lib e (visited_sidecars e paths))"
proof (induction paths arbitrary: acc)
  case Nil
  then show ?case by (simp add: visited_sidecars_def sidecar_rows_def)
next
  case (Cons p rest)
  show ?case
  proof (cases "os_path_exists e p")
    case False
    with Cons.prems
    have "list_all (\<lambda>(root, file). \<not> isl (process_sidecar lib e root file)) (visited_sidecars e rest)"
      by (simp add: visited_sidecars_Cons)
    from Cons.IH[OF this] show ?thesis using False by (simp add: visited_sidecars_Cons)
  next
    case True
    with Cons.prems
    have here: "list_all (\<lambda>(root, file). \<not> isl (process_sidecar lib e root file))
        (walk_sidecars (os_walk e p))"
      and later: "list_all (\<lambda>(root, file). \<not> isl (process_sidecar lib e root file))
        (visited_sidecars e rest)"
      by (simp_all add: visited_sidecars_Cons)
    show ?thesis
      using True
      by (simp add: process_walk_rows[OF here] Cons.IH[OF later] visited_sidecars_Cons
          sidecar_rows_append)
  qed
qed

lemma process_paths_raises:
  "\<not> list_all (\<lambda>(root, file). \<not> isl (process_sidecar lib e root file)) (visited_sidecars e paths) \<Longrightarrow>
   \<exists>err. process_paths lib e paths acc = Inl err"
proof (induction paths arbitrary: acc)
  case Nil
  then show ?case by (simp add: visited_sidecars_def)
next
  case (Cons p rest)
  show ?case
  proof (cases "os_path_exists e p")
    case False
    with Cons.prems
    have "\<not> list_all (\<lambda>(root, file). \<not> isl (process_sidecar lib e root file)) (visited_sidecars e rest)"
      by (simp add: visited_sidecars_Cons)
    from Cons.IH[OF this] show ?thesis using False by simp
  next
    case True
    show ?thesis
    proof (cases "list_all (\<lambda>(root, file). \<not> isl (process_sidecar lib e root file))
        (walk_sidecars (os_walk e p))")
      case ok: True
      with Cons.prems True
      have "\<not> list_all (\<lambda>(root, file). \<not> isl (process_sidecar lib e root file))
          (visited_sidecars e rest)"
        by (simp add: visited_sidecars_Cons)
      from Cons.IH[OF this] show ?thesis
        using True by (simp add: process_walk_rows[OF ok])
    next
      case False
      from process_walk_raises[OF False] obtain err where
        "process_walk lib e (os_walk e p) acc = Inl err" by blast
      then show ?thesis using True by simp
    qed
  qed
qed

lemma csv_writerows_written:
  "all_rows_write lib rows \<Longrightarrow>
   csv_writerows lib rows written = (None, written @ csv_text lib rows)"
proof (induction rows arbitrary: written)
  case Nil
  then show ?case by (simp add: csv_text_def)
next
  case (Cons row rows)
  then have ok: "\<not> isl (csv_writerow lib row)" and rest: "all_rows_write lib rows"
    by (simp_all add: all_rows_write_def)
  from ok obtain line where line: "csv_writerow lib row = Inr line"
    by (cases "csv_writerow lib row") simp_all
  show ?case
    by (simp add: line Cons.IH[OF rest] csv_text_def)
qed

lemma csv_writerows_raises:
  "all_rows_write lib before \<Longrightarrow> csv_writerow lib row = Inl err \<Longrightarrow>
   csv_writerows lib (before @ row # rest) written = (Some err, written @ csv_text lib before)"
proof (induction before arbitrary: written)
  case Nil
  then show ?case by (simp add: csv_text_def)
next
  case (Cons b before)
  then have ok: "\<not> isl (csv_writerow lib b)" and rest: "all_rows_write lib before"
    by (simp_all add: all_rows_write_def)
  from ok obtain line where line: "csv_writerow lib b = Inr line"
    by (cases "csv_writerow lib b") simp_all
  show ?case
    by (simp add: line Cons.IH[OF rest Cons.prems(2)] csv_text_def)
qed

lemma write_file_nodes: "nodes (write_file e filename text) filename = Some (File text)"
  by (simp add: write_file_def)

lemma generate_lora_csv_loads:
  assumes "lora_search_path e \<noteq> []" and "all_sidecars_load lib e" and "writable e filename"
    and "all_rows_write lib (sidecar_rows lib e (visited_sidecars e (lora_search_path e)))"
  shows "generate_lora_csv lib e filename =
     (Inr True, write_file e filename
        (csv_text lib (sidecar_rows lib e (visited_sidecars e (lora_search_path e)))))"
  using assms(1,3)
  by (simp add: generate_lora_csv_def Let_def
      process_paths_rows[OF assms(2)[unfolded all_sidecars_load_def]]
      csv_writerows_written[OF assms(4)])

lemma generate_lora_csv_never_false:
  assumes "lora_search_path e \<noteq> []"
  shows "fst (generate_lora_csv lib e filename) \<noteq> Inr False"
  using assms
  by (auto simp: generate_lora_csv_def Let_def split: sum.splits prod.splits option.splits)

section \<open>The LoRA synthesizer's result\<close>

text \<open>
  Claim C5, as amended. \<^verbatim>\<open>generate_lora_csv\<close> returns false and writes nothing when
  the configured list of search paths is empty. For a non-empty list it never returns
  false; it returns true and replaces the target file by the rows found, without a header
  row, provided that no visited sidecar raises, the target can be opened for writing and
  every row can be written; this holds also when no row is found, and the file is then
  empty. (The claim promises the result true for every non-empty configuration; the
  counterexample below is a configuration with an unparsable sidecar, where the function
  raises before it opens the target.)
\<close>

theorem generate_lora_csv_outcome:
  "(lora_search_path e = [] \<longrightarrow> generate_lora_csv lib e filename = (Inr False, e))
   \<and> (lora_search_path e \<noteq> [] \<and> all_sidecars_load lib e \<and> writable e filename
        \<and> all_rows_write lib (sidecar_rows lib e (visited_sidecars e (lora_search_path e))) \<longrightarrow>
        generate_lora_csv lib e filename =
          (Inr True, write_file e filename
             (csv_text lib (sidecar_rows lib e (visited_sidecars e (lora_search_path e)))))
        \<and> nodes (snd (generate_lora_csv lib e filename)) filename =
            Some (File (csv_text lib
              (sidecar_rows lib e (visited_sidecars e (lora_search_path e))))))
   \<and> (lora_search_path e \<noteq> [] \<and> all_sidecars_load lib e \<and> writable e filename
        \<and> sidecar_rows lib e (visited_sidecars e (lora_search_path e)) = [] \<longrightarrow>
        fst (generate_lora_csv lib e filename) = Inr True
        \<and> nodes (snd (generate_lora_csv lib e filename)) filename = Some (File []))
   \<and> (lora_search_path e \<noteq> [] \<longrightarrow> fst (generate_lora_csv lib e filename) \<noteq> Inr False)"
proof (intro conjI impI)
  assume "lora_search_path e = []"
  then show "generate_lora_csv lib e filename = (Inr False, e)"
    by (simp add: generate_lora_csv_def)
next
  assume a: "lora_search_path e \<noteq> [] \<and> all_sidecars_load lib e \<and> writable e filename
        \<and> all_rows_write lib (sidecar_rows lib e (visited_sidecars e (lora_search_path e)))"
  then show g: "generate_lora_csv lib e filename =
          (Inr True, write_file e filename
             (csv_text lib (sidecar_rows lib e (visited_sidecars e (lora_search_path e)))))"
    by (simp add: generate_lora_csv_loads)
  show "nodes (snd (generate_lora_csv lib e filename)) filename =
            Some (File (csv_text lib
              (sidecar_rows lib e (visited_sidecars e (lora_search_path e)))))"
    by (simp add: g write_file_nodes)
next
  assume a: "lora_search_path e \<noteq> [] \<and> all_sidecars_load lib e \<and> writable e filename
        \<and> sidecar_rows lib e (visited_sidecars e (lora_search_path e)) = []"
  then have "all_rows_write lib (sidecar_rows lib e (visited_sidecars e (lora_search_path e)))"
    by (simp add: all_rows_write_def)
  with a have g: "generate_lora_csv lib e filename =
          (Inr True, write_file e filename (csv_text lib []))"
    using generate_lora_csv_loads[of e lib filename] by simp
  show "fst (generate_lora_csv lib e filename) = Inr True" by (simp add: g)
  show "nodes (snd (generate_lora_csv lib e filename)) filename = Some (File [])"
    by (simp add: g write_file_nodes csv_text_def)
next
  assume "lora_search_path e \<noteq> []"
  then show "fst (generate_lora_csv lib e filename) \<noteq> Inr False"
    by (rule generate_lora_csv_never_false)
qed

lemma sample_sidecars_load: "all_sidecars_load sample_lib sample_env"
  by code_simp

lemma sample_rows:
  "sidecar_rows sample_lib sample_env (visited_sidecars sample_env (lora_search_path sample_env))
   = [(''foo'', PStr ''<lora:foo:0.8>foo tag'', ''/loras/foo.png''),
      (''bar'', PStr ''bar tag'', []), (''nil'', PStr ''nil tag'', [])]"
  by code_simp

lemma sample_rows_write:
  "all_rows_write sample_lib
     (sidecar_rows sample_lib sample_env (visited_sidecars sample_env (lora_search_path sample_env)))"
  by code_simp

theorem generate_lora_csv_outcome_witness:
  "generate_lora_csv sample_lib (lora_env []) ''/data/lora_tags.csv'' = (Inr False, lora_env [])
   \<and> fst (generate_lora_csv sample_lib sample_env ''/data/lora_tags.csv'') = Inr True
   \<and> nodes (snd (generate_lora_csv sample_lib sample_env ''/data/lora_tags.csv''))
        ''/data/lora_tags.csv''
      = Some (File (csv_text sample_lib
          [(''foo'', PStr ''<lora:foo:0.8>foo tag'', ''/loras/foo.png''),
           (''bar'', PStr ''bar tag'', []), (''nil'', PStr ''nil tag'', [])]))
   \<and> fst (generate_lora_csv sample_lib (lora_env [''/missing'']) ''/data/lora_tags.csv'') = Inr True
   \<and> nodes (snd (generate_lora_csv sample_lib (lora_env [''/missing'']) ''/data/lora_tags.csv''))
        ''/data/lora_tags.csv'' = Some (File [])
   \<and> fst (generate_lora_csv sample_lib (lora_env [''/heavy'']) ''/data/lora_tags.csv'') \<noteq> Inr False"
proof -
  let ?t = "''/data/lora_tags.csv''"
  have e0: "lora_search_path (lora_env []) = []" by (simp add: lora_env_def)
  have a: "generate_lora_csv sample_lib (lora_env []) ?t = (Inr False, lora_env [])"
    using generate_lora_csv_outcome[of "lora_env []" sample_lib ?t] e0 by blast
  have e1: "lora_search_path sample_env \<noteq> [] \<and> all_sidecars_load sample_lib sample_env
      \<and> writable sample_env ?t
      \<and> all_rows_write sample_lib
          (sidecar_rows sample_lib sample_env
            (visited_sidecars sample_env (lora_search_path sample_env)))"
    using sample_sidecars_load sample_rows_write by (simp add: sample_env_def)
  have b: "generate_lora_csv sample_lib sample_env ?t =
          (Inr True, write_file sample_env ?t
             (csv_text sample_lib
               (sidecar_rows sample_lib sample_env
                 (visited_sidecars sample_env (lora_search_path sample_env)))))
        \<and> nodes (snd (generate_lora_csv sample_lib sample_env ?t)) ?t =
            Some (File (csv_text sample_lib
              (sidecar_rows sample_lib sample_env
                (visited_sidecars sample_env (lora_search_path sample_env)))))"
    using generate_lora_csv_outcome[of sample_env sample_lib ?t] e1 by blast
  have e2: "lora_search_path (lora_env [''/missing'']) \<noteq> []
      \<and> all_sidecars_load sample_lib (lora_env [''/missing''])
      \<and> writable (lora_env [''/missing'']) ?t
      \<and> sidecar_rows sample_lib (lora_env [''/missing''])
          (visited_sidecars (lora_env [''/missing'']) (lora_search_path (lora_env [''/missing'']))) = []"
    by (simp add: lora_env_def sample_env_def all_sidecars_load_def visited_sidecars_def
        os_path_exists_def sample_nodes_def sidecar_rows_def)
  have c: "fst (generate_lora_csv sample_lib (lora_env [''/missing'']) ?t) = Inr True
        \<and> nodes (snd (generate_lora_csv sample_lib (lora_env [''/missing'']) ?t)) ?t = Some (File [])"
    using generate_lora_csv_outcome[of "lora_env [''/missing'']" sample_lib ?t] e2 by blast
  have e3: "lora_search_path (lora_env [''/heavy'']) \<noteq> []" by (simp add: lora_env_def)
  have d: "fst (generate_lora_csv sample_lib (lora_env [''/heavy'']) ?t) \<noteq> Inr False"
    using generate_lora_csv_outcome[of "lora_env [''/heavy'']" sample_lib ?t] e3 by blast
  from a b c d show ?thesis by (simp add: sample_rows write_file_nodes)
qed

theorem generate_lora_csv_raises_counterexample:
  "lora_search_path (lora_env [''/loras'', ''/broken'']) \<noteq> []
   \<and> fst (generate_lora_csv sample_lib (lora_env [''/loras'', ''/broken'']) ''/data/lora_tags.csv'')
       = Inl JSONDecodeError
   \<and> nodes (snd (generate_lora_csv sample_lib (lora_env [''/loras'', ''/broken''])
        ''/data/lora_tags.csv'')) ''/data/lora_tags.csv'' = None"
  by code_simp

lemma py_contains_dict:
  "py_contains (PDict kvs) key = Inr (map_of kvs key \<noteq> None)"
  by (simp add: map_of_eq_None_iff)

lemma process_sidecar_dict:
  assumes "read_file e (path_join root file) = Inr text"
    and "json_loads lib text = Inr (PDict kvs)"
  shows "process_sidecar lib e root file =
     (case map_of kvs ''activation text'' of
        None \<Rightarrow> Inr None
      | Some t \<Rightarrow>
          (case py_float lib (case map_of kvs ''preferred weight'' of Some v \<Rightarrow> v | None \<Rightarrow> PInt 0) of
             Inl err \<Rightarrow> Inl err
           | Inr w \<Rightarrow>
               Inr (Some (splitext_root file,
                          (if float_nonzero lib w
                           then PStr (''<lora:'' @ splitext_root file @ '':'' @ format_float lib w
                                  @ ''>'' @ py_format lib t)
                           else t),
                          (if os_path_exists e (path_join root (splitext_root file @ ''.png''))
                           then path_join root (splitext_root file @ ''.png'') else [])))))"
  unfolding process_sidecar_def Let_def
  by (simp add: assms bind_err_def py_contains_dict del: py_contains.simps
      split: option.splits sum.splits)

section \<open>The row of one sidecar\<close>

text \<open>
  Claim C6. For a sidecar that is read and parsed to a JSON object: without the key
  \<^verbatim>\<open>activation text\<close> it adds no row to \<open>write_data\<close>; with it, and with a weight that
  \<^verbatim>\<open>float\<close> converts to \<open>w\<close>, it adds the row whose name is the file name without its
  extension, whose text is the activation text prefixed with \<^verbatim>\<open><lora:{name}:{w}>\<close> when
  \<open>w\<close> is not zero and the activation text itself when it is zero, and whose preview is
  the sibling \<^verbatim>\<open>.png\<close> path if that exists and the empty string otherwise. An absent
  weight is the default \<^verbatim>\<open>0\<close>, which gives the unprefixed text as \<^verbatim>\<open>float(0)\<close> is zero.
\<close>

theorem sidecar_contribution:
  assumes "read_file e (path_join root file) = Inr text"
    and "json_loads lib text = Inr (PDict kvs)"
  shows
   "(map_of kvs ''activation text'' = None \<longrightarrow> process_files lib e root [file] acc = Inr acc)
    \<and> (\<forall>t w. map_of kvs ''activation text'' = Some t
          \<and> py_float lib (case map_of kvs ''preferred weight'' of Some v \<Rightarrow> v | None \<Rightarrow> PInt 0)
              = Inr w \<longrightarrow>
        process_files lib e root [file] acc =
          Inr (acc @ [(splitext_root file,
                       (if float_nonzero lib w
                        then PStr (''<lora:'' @ splitext_root file @ '':'' @ format_float lib w
                               @ ''>'' @ py_format lib t)
                        else t),
                       (if os_path_exists e (path_join root (splitext_root file @ ''.png''))
                        then path_join root (splitext_root file @ ''.png'') else []))]))
    \<and> (\<forall>t z. map_of kvs ''activation text'' = Some t \<and> map_of kvs ''preferred weight'' = None
          \<and> float_of_int lib 0 = Inr z \<and> \<not> float_nonzero lib z \<longrightarrow>
        process_files lib e root [file] acc =
          Inr (acc @ [(splitext_root file, t,
                       (if os_path_exists e (path_join root (splitext_root file @ ''.png''))
                        then path_join root (splitext_root file @ ''.png'') else []))]))"
  by (simp add: process_sidecar_dict[OF assms])

lemma foo_text: \<open>read_file sample_env (path_join ''/loras'' ''foo.json'')
    = Inr ''{"activation text": "foo tag", "preferred weight": 0.8}''\<close>
  by code_simp

lemma foo_json: \<open>json_loads sample_lib ''{"activation text": "foo tag", "preferred weight": 0.8}''
    = Inr (PDict [(''activation text'', PStr ''foo tag''), (''preferred weight'', PFloat ''0.8'')])\<close>
  by code_simp

lemma bar_text: \<open>read_file sample_env (path_join ''/loras/sub'' ''bar.json'')
    = Inr ''{"activation text": "bar tag"}''\<close>
  by code_simp

lemma bar_json: \<open>json_loads sample_lib ''{"activation text": "bar tag"}''
    = Inr (PDict [(''activation text'', PStr ''bar tag'')])\<close>
  by code_simp

lemma plain_text: \<open>read_file sample_env (path_join ''/loras/sub'' ''plain.json'')
    = Inr ''{"notes": "no trigger words"}''\<close>
  by code_simp

lemma plain_json: \<open>json_loads sample_lib ''{"notes": "no trigger words"}''
    = Inr (PDict [(''notes'', PStr ''no trigger words'')])\<close>
  by code_simp

theorem sidecar_contribution_witness:
  "process_files sample_lib sample_env ''/loras'' [''foo.json''] []
     = Inr [(''foo'', PStr ''<lora:foo:0.8>foo tag'', ''/loras/foo.png'')]
   \<and> process_files sample_lib sample_env ''/loras/sub'' [''bar.json''] []
     = Inr [(''bar'', PStr ''bar tag'', [])]
   \<and> process_files sample_lib sample_env ''/loras/sub'' [''plain.json''] [] = Inr []"
proof -
  note foo = sidecar_contribution[OF foo_text foo_json, of "[]"]
  note bar = sidecar_contribution[OF bar_text bar_json, of "[]"]
  note plain = sidecar_contribution[OF plain_text plain_json, of "[]"]
  have f1: "map_of [(''activation text'', PStr ''foo tag''), (''preferred weight'', PFloat ''0.8'')]
        ''activation text'' = Some (PStr ''foo tag'')
      \<and> py_float sample_lib
          (case map_of [(''activation text'', PStr ''foo tag''), (''preferred weight'', PFloat ''0.8'')]
                  ''preferred weight'' of Some v \<Rightarrow> v | None \<Rightarrow> PInt 0) = Inr ''0.8''"
    by simp
  have f2: "float_nonzero sample_lib ''0.8''" "format_float sample_lib ''0.8'' = ''0.8''"
    by (simp_all add: sample_lib_def)
  have f3: "splitext_root ''foo.json'' = ''foo''" by code_simp
  have f4: "os_path_exists sample_env (path_join ''/loras'' (''foo'' @ ''.png''))"
    "path_join ''/loras'' (''foo'' @ ''.png'') = ''/loras/foo.png''"
    by code_simp+
  have a: "process_files sample_lib sample_env ''/loras'' [''foo.json''] []
     = Inr [(''foo'', PStr ''<lora:foo:0.8>foo tag'', ''/loras/foo.png'')]"
    using foo[THEN conjunct2, THEN conjunct1, rule_format, OF f1] f2 f3 f4 by simp
  have b0: "float_of_int sample_lib 0 = Inr ''0.0'' \<and> \<not> float_nonzero sample_lib ''0.0''"
    by code_simp
  have b1: "map_of [(''activation text'', PStr ''bar tag'' :: string pyval)] ''activation text''
        = Some (PStr ''bar tag'')
      \<and> map_of [(''activation text'', PStr ''bar tag'' :: string pyval)] ''preferred weight'' = None
      \<and> float_of_int sample_lib 0 = Inr ''0.0'' \<and> \<not> float_nonzero sample_lib ''0.0''"
    using b0 by simp
  have b3: "splitext_root ''bar.json'' = ''bar''" by code_simp
  have b4: "\<not> os_path_exists sample_env (path_join ''/loras/sub'' (''bar'' @ ''.png''))"
    by code_simp
  have b: "process_files sample_lib sample_env ''/loras/sub'' [''bar.json''] []
     = Inr [(''bar'', PStr ''bar tag'', [])]"
    using bar[THEN conjunct2, THEN conjunct2, rule_format, OF b1] b3 b4 by simp
  have c1: "map_of [(''notes'', PStr ''no trigger words'')] ''activation text'' = None" by simp
  have c: "process_files sample_lib sample_env ''/loras/sub'' [''plain.json''] [] = Inr []"
    using plain[THEN conjunct1, rule_format, OF c1] by simp
  from a b c show ?thesis by blast
qed

lemma walk_sidecars_member:
  assumes "(root, dirs, files) \<in> set w" and "file \<in> set files" and "endswith file ''.json''"
  shows "(root, file) \<in> set (walk_sidecars w)"
  using assms(1)
proof (induction w)
  case Nil
  then show ?case by simp
next
  case (Cons t rest)
  obtain r ds fs where t: "t = (r, ds, fs)" by (cases t)
  show ?case
  proof (cases "t = (root, dirs, files)")
    case True
    then show ?thesis using assms(2,3) by (simp add: walk_sidecars_Cons)
  next
    case False
    with Cons have "(root, file) \<in> set (walk_sidecars rest)" by simp
    then show ?thesis by (simp add: t walk_sidecars_Cons)
  qed
qed

lemma visited_sidecars_member:
  assumes "lora_path \<in> set paths" and "os_path_exists e lora_path"
    and "(root, dirs, files) \<in> set (os_walk e lora_path)"
    and "file \<in> set files" and "endswith file ''.json''"
  shows "(root, file) \<in> set (visited_sidecars e paths)"
  using assms(1)
proof (induction paths)
  case Nil
  then show ?case by simp
next
  case (Cons p rest)
  show ?case
  proof (cases "p = lora_path")
    case True
    then show ?thesis
      using assms(2) walk_sidecars_member[OF assms(3,4,5)]
      by (simp add: visited_sidecars_Cons)
  next
    case False
    with Cons have "(root, file) \<in> set (visited_sidecars e rest)" by simp
    then show ?thesis by (simp add: visited_sidecars_Cons)
  qed
qed

lemma process_sidecar_unparsable:
  assumes "read_file e (path_join root file) = Inr text"
    and "json_loads lib text = Inl err"
  shows "process_sidecar lib e root file = Inl err"
  unfolding process_sidecar_def Let_def by (simp add: assms bind_err_def)

lemma status_entry_scan:
  assumes "os_listdir e (DATA_DIR e) = Inr listing"
    and "scan_prefix e prefix = Inr entry"
    and "py_getitem st key = Inr entry"
  shows "status_entry st key = Inr entry"
  using assms(2) unfolding status_entry_def scan_prefix_listing[OF assms(1)]
  by (auto simp: bind_err_def assms(3))

lemma status_response_listing:
  assumes "os_listdir e (DATA_DIR e) = Inr listing"
  shows "\<exists>d s. scan_prefix e DANBOORU_PREFIX = Inr d \<and> scan_prefix e E621_PREFIX = Inr s
           \<and> status_response e = Inr [(DANBOORU_PREFIX, d), (E621_PREFIX, s)]"
proof -
  obtain d s where d: "scan_prefix e DANBOORU_PREFIX = Inr (d :: 'a pyval)"
    and s: "scan_prefix e E621_PREFIX = Inr s"
    and st: "get_csv_file_status e = Inr (PDict [(DANBOORU_PREFIX, d), (E621_PREFIX, s)])"
    using get_csv_file_status_listing[OF assms] by blast
  have gd: "py_getitem (PDict [(DANBOORU_PREFIX, d), (E621_PREFIX, s)]) DANBOORU_PREFIX = Inr d"
    by simp
  have gs: "py_getitem (PDict [(DANBOORU_PREFIX, d), (E621_PREFIX, s)]) E621_PREFIX = Inr s"
    using prefixes_differ by simp
  have "status_response e = Inr [(DANBOORU_PREFIX, d), (E621_PREFIX, s)]"
    unfolding status_response_def
    by (simp add: st bind_err_def status_entry_scan[OF assms d gd] status_entry_scan[OF assms s gs])
  with d s show ?thesis by blast
qed

section \<open>A sidecar that raises fails the whole request\<close>

text \<open>
  Claim C10. The synthesizer tolerates only a sidecar without \<^verbatim>\<open>activation text\<close>. When a
  configured root that exists holds a \<^verbatim>\<open>.json\<close> file that can be read but not parsed, or
  that has an activation text and a weight which \<^verbatim>\<open>float\<close> rejects, then
  \<^verbatim>\<open>generate_lora_csv\<close> raises for every target, the file system is left as it was
  (nothing is written), and the status endpoint, which does not catch the exception,
  raises the same exception instead of answering.
\<close>

theorem bad_sidecar_fails_request:
  assumes "lora_path \<in> set (lora_search_path e)" and "os_path_exists e lora_path"
    and "(root, dirs, files) \<in> set (os_walk e lora_path)"
    and "file \<in> set files" and "endswith file ''.json''"
    and "read_file e (path_join root file) = Inr text"
    and "(\<exists>err. json_loads lib text = Inl err)
         \<or> (\<exists>kvs t err. json_loads lib text = Inr (PDict kvs)
               \<and> map_of kvs ''activation text'' = Some t
               \<and> py_float lib (case map_of kvs ''preferred weight'' of
                                  Some v \<Rightarrow> v | None \<Rightarrow> PInt 0) = Inl err)"
  shows "\<exists>err. (\<forall>filename. generate_lora_csv lib e filename = (Inl err, e))
           \<and> (\<forall>response :: (string \<times> 'f pyval) list. status_response e = Inr response
                  \<longrightarrow> get_csv_list (lib :: 'f pylib) e = (Inl err, e))"
proof -
  have bad: "isl (process_sidecar lib e root file)"
    using assms(7)
  proof (elim disjE exE conjE)
    fix err assume "json_loads lib text = Inl err"
    from process_sidecar_unparsable[OF assms(6) this] show ?thesis by simp
  next
    fix kvs t err
    assume j: "json_loads lib text = Inr (PDict kvs)"
      and a: "map_of kvs ''activation text'' = Some t"
      and w: "py_float lib (case map_of kvs ''preferred weight'' of
                                  Some v \<Rightarrow> v | None \<Rightarrow> PInt 0) = Inl err"
    show ?thesis by (simp add: process_sidecar_dict[OF assms(6) j] a w)
  qed
  have "(root, file) \<in> set (visited_sidecars e (lora_search_path e))"
    by (rule visited_sidecars_member[OF assms(1-5)])
  with bad have "\<not> list_all (\<lambda>(root, file). \<not> isl (process_sidecar lib e root file))
      (visited_sidecars e (lora_search_path e))"
    by (auto simp: list_all_iff)
  from process_paths_raises[OF this] obtain err where
    p: "process_paths lib e (lora_search_path e) [] = Inl err" by blast
  have ne: "lora_search_path e \<noteq> []" using assms(1) by auto
  have g: "generate_lora_csv lib e filename = (Inl err, e)" for filename
    using ne by (simp add: generate_lora_csv_def Let_def p)
  have "get_csv_list lib e = (Inl err, e)"
    if "status_response e = Inr response" for response :: "(string \<times> 'f pyval) list"
    unfolding get_csv_list_def by (simp add: that g)
  with g show ?thesis by blast
qed

section \<open>The status endpoint\<close>

text \<open>
  Claim C7. When the data directory can be listed, the response of the status endpoint
  is determined by the synthesizer: if it returns true the JSON body has the key
  \<^verbatim>\<open>lora\<close> with the value \<^verbatim>\<open>{base_tags: true}\<close>, if it returns false the key is absent, so
  the key is there if and only if the synthesizer returned true; in both cases the
  entries \<^verbatim>\<open>danbooru\<close> and \<^verbatim>\<open>e621\<close> are the scanner's entries with their four fields.
  When the synthesizer raises there is no response: the exception leaves the handler.
\<close>

theorem get_csv_list_lora_key:
  assumes "os_listdir e (DATA_DIR e) = Inr listing"
  shows "\<exists>d s.
     scan_prefix e DANBOORU_PREFIX = Inr d \<and> scan_prefix e E621_PREFIX = Inr s
     \<and> (\<exists>bt xt bc xc. d = PDict [(''base_tags'', PBool bt), (''extra_tags'', PList xt),
                                  (''base_cooccurrence'', PBool bc),
                                  (''extra_cooccurrence'', PList xc)])
     \<and> (\<exists>bt xt bc xc. s = PDict [(''base_tags'', PBool bt), (''extra_tags'', PList xt),
                                  (''base_cooccurrence'', PBool bc),
                                  (''extra_cooccurrence'', PList xc)])
     \<and> (\<forall>ok e'. generate_lora_csv lib e
                     (path_join (DATA_DIR e) (base_file LORA_PREFIX TAGS_SUFFIX)) = (Inr ok, e')
          \<longrightarrow> (\<exists>body. get_csv_list lib e = (Inr (JsonResponse 200 (PDict body)), e')
                 \<and> map_of body DANBOORU_PREFIX = Some d
                 \<and> map_of body E621_PREFIX = Some s
                 \<and> (map_of body LORA_PREFIX = Some (PDict [(''base_tags'', PBool True)])
                      \<longleftrightarrow> ok)
                 \<and> (map_of body LORA_PREFIX = None \<longleftrightarrow> \<not> ok)))
     \<and> (\<forall>err e'. generate_lora_csv lib e
                     (path_join (DATA_DIR e) (base_file LORA_PREFIX TAGS_SUFFIX)) = (Inl err, e')
          \<longrightarrow> get_csv_list lib e = (Inl err, e'))"
proof -
  obtain d s where d: "scan_prefix e DANBOORU_PREFIX = Inr (d :: 'a pyval)"
    and s: "scan_prefix e E621_PREFIX = Inr s"
    and r: "status_response e = Inr [(DANBOORU_PREFIX, d), (E621_PREFIX, s)]"
    using status_response_listing[OF assms] by blast
  have fd: "\<exists>bt xt bc xc. d = PDict [(''base_tags'', PBool bt), (''extra_tags'', PList xt),
                                  (''base_cooccurrence'', PBool bc),
                                  (''extra_cooccurrence'', PList xc)]"
    using d unfolding scan_prefix_listing[OF assms] by blast
  have fs: "\<exists>bt xt bc xc. s = PDict [(''base_tags'', PBool bt), (''extra_tags'', PList xt),
                                  (''base_cooccurrence'', PBool bc),
                                  (''extra_cooccurrence'', PList xc)]"
    using s unfolding scan_prefix_listing[OF assms] by blast
  let ?g = "generate_lora_csv lib e (path_join (DATA_DIR e) (base_file LORA_PREFIX TAGS_SUFFIX))"
  have keys: "LORA_PREFIX \<noteq> DANBOORU_PREFIX" "LORA_PREFIX \<noteq> E621_PREFIX"
    "DANBOORU_PREFIX \<noteq> E621_PREFIX"
    by (simp_all add: LORA_PREFIX_def DANBOORU_PREFIX_def E621_PREFIX_def)
  have ok: "\<exists>body. get_csv_list lib e = (Inr (JsonResponse 200 (PDict body)), e')
                 \<and> map_of body DANBOORU_PREFIX = Some d
                 \<and> map_of body E621_PREFIX = Some s
                 \<and> (map_of body LORA_PREFIX = Some (PDict [(''base_tags'', PBool True)])
                      \<longleftrightarrow> ok)
                 \<and> (map_of body LORA_PREFIX = None \<longleftrightarrow> \<not> ok)"
    if "?g = (Inr ok, e')" for ok e'
    unfolding get_csv_list_def using keys by (cases ok) (simp_all add: r that)
  have raise: "get_csv_list lib e = (Inl err, e')" if "?g = (Inl err, e')" for err e'
    unfolding get_csv_list_def by (simp add: r that)
  from d s fd fs ok raise show ?thesis by blast
qed

lemma heavy_text: \<open>read_file (lora_env [''/heavy'']) (path_join ''/heavy'' ''baz.json'')
    = Inr ''{"activation text": "baz tag", "preferred weight": "heavy"}''\<close>
  by code_simp

lemma heavy_json:
  \<open>json_loads sample_lib ''{"activation text": "baz tag", "preferred weight": "heavy"}''
    = Inr (PDict [(''activation text'', PStr ''baz tag''), (''preferred weight'', PStr ''heavy'')])\<close>
  by code_simp

lemma heavy_weight:
  "py_float sample_lib
     (case map_of [(''activation text'', PStr ''baz tag''), (''preferred weight'', PStr ''heavy'')]
             ''preferred weight'' of Some v \<Rightarrow> v | None \<Rightarrow> PInt 0) = Inl ValueError"
  by (simp add: sample_lib_def)

lemma lora_env_listdir: "os_listdir (lora_env paths) (DATA_DIR (lora_env paths)) = Inr sample_listing"
  by (simp add: lora_env_def sample_env_def)

theorem bad_sidecar_fails_request_witness:
  "isl (fst (generate_lora_csv sample_lib (lora_env [''/heavy'']) ''/data/lora_tags.csv''))
   \<and> snd (generate_lora_csv sample_lib (lora_env [''/heavy'']) ''/data/lora_tags.csv'')
       = lora_env [''/heavy'']
   \<and> isl (fst (get_csv_list sample_lib (lora_env [''/heavy''])))
   \<and> snd (get_csv_list sample_lib (lora_env [''/heavy''])) = lora_env [''/heavy'']"
proof -
  let ?e = "lora_env [''/heavy'']"
  have h1: "''/heavy'' \<in> set (lora_search_path ?e)" by (simp add: lora_env_def)
  have h2: "os_path_exists ?e ''/heavy''"
    by (simp add: lora_env_def sample_env_def os_path_exists_def sample_nodes_def)
  have h3: "(''/heavy'', [], [''baz.json'']) \<in> set (os_walk ?e ''/heavy'')"
    by (simp add: lora_env_def sample_env_def sample_walk_def)
  have h4: "''baz.json'' \<in> set [''baz.json'']" by simp
  have h5: "endswith ''baz.json'' ''.json''" by (simp add: endswith_def)
  have h7: \<open>(\<exists>err. json_loads sample_lib
                ''{"activation text": "baz tag", "preferred weight": "heavy"}'' = Inl err)
         \<or> (\<exists>kvs t err. json_loads sample_lib
                ''{"activation text": "baz tag", "preferred weight": "heavy"}''
                  = Inr (PDict kvs)
               \<and> map_of kvs ''activation text'' = Some t
               \<and> py_float sample_lib (case map_of kvs ''preferred weight'' of
                                  Some v \<Rightarrow> v | None \<Rightarrow> PInt 0) = Inl err)\<close>
    using heavy_json heavy_weight by auto
  obtain response where r: "status_response ?e = Inr (response :: (string \<times> string pyval) list)"
    using status_response_listing[OF lora_env_listdir] by blast
  from bad_sidecar_fails_request[OF h1 h2 h3 h4 h5 heavy_text h7] r
  show ?thesis by auto
qed

lemma sample_generate_true:
  "fst (generate_lora_csv sample_lib sample_env
     (path_join (DATA_DIR sample_env) (base_file LORA_PREFIX TAGS_SUFFIX))) = Inr True"
  by code_simp

lemma empty_generate_false:
  "fst (generate_lora_csv sample_lib (lora_env [])
     (path_join (DATA_DIR (lora_env [])) (base_file LORA_PREFIX TAGS_SUFFIX))) = Inr False"
  by code_simp

theorem get_csv_list_lora_key_witness:
  "(\<exists>body e'. get_csv_list sample_lib sample_env = (Inr (JsonResponse 200 (PDict body)), e')
       \<and> map_of body LORA_PREFIX = Some (PDict [(''base_tags'', PBool True)]))
   \<and> (\<exists>body e'. get_csv_list sample_lib (lora_env []) = (Inr (JsonResponse 200 (PDict body)), e')
       \<and> map_of body LORA_PREFIX = None)"
proof -
  obtain e1 where g1: "generate_lora_csv sample_lib sample_env
     (path_join (DATA_DIR sample_env) (base_file LORA_PREFIX TAGS_SUFFIX)) = (Inr True, e1)"
    using sample_generate_true by (metis prod.collapse)
  obtain e2 where g2: "generate_lora_csv sample_lib (lora_env [])
     (path_join (DATA_DIR (lora_env [])) (base_file LORA_PREFIX TAGS_SUFFIX)) = (Inr False, e2)"
    using empty_generate_false by (metis prod.collapse)
  have a: "\<exists>body e'. get_csv_list sample_lib sample_env = (Inr (JsonResponse 200 (PDict body)), e')
       \<and> map_of body LORA_PREFIX = Some (PDict [(''base_tags'', PBool True)])"
    using get_csv_list_lora_key[OF sample_listdir, of sample_lib] g1 by blast
  have b: "\<exists>body e'. get_csv_list sample_lib (lora_env []) = (Inr (JsonResponse 200 (PDict body)), e')
       \<and> map_of body LORA_PREFIX = None"
    using get_csv_list_lora_key[OF lora_env_listdir, of "[]" sample_lib] g2 by blast
  from a b show ?thesis by blast
qed

lemma read_file_error: "read_file e p = Inl err \<Longrightarrow> err = OSError"
  by (auto simp: read_file_def split: option.splits node.splits)

lemma read_file_exists: "read_file e p = Inr text \<Longrightarrow> os_path_exists e p"
  by (auto simp: read_file_def os_path_exists_def split: option.splits node.splits)


lemma reader_unreadable:
  assumes "read_file e (CSV_META_FILE e) = Inl err"
  shows "get_last_check_time_from_metadata lib e = Inr PNone"
proof -
  have "err = OSError" using assms by (rule read_file_error)
  then show ?thesis
    using assms
    by (simp add: get_last_check_time_from_metadata_def get_last_check_time_from_metadata_body_def
        bind_err_def is_IOError_or_JSONDecodeError_def)
qed

lemma reader_parsed:
  assumes "read_file e (CSV_META_FILE e) = Inr text"
  shows "get_last_check_time_from_metadata_body lib e =
     bind_err (json_loads lib text) (\<lambda>metadata.
        bind_err (py_get metadata ''hf_datasets'' (PList [])) (\<lambda>datasets.
          if \<not> py_truthy lib datasets then Inr PNone
          else
            bind_err (py_len datasets) (\<lambda>n.
              if n > 0
              then bind_err (py_first datasets) (\<lambda>d.
                     py_get d ''last_remote_check_timestamp'' PNone)
              else Inr PNone)))"
  using read_file_exists[OF assms]
  by (simp add: get_last_check_time_from_metadata_body_def assms bind_err_def)

lemma reader_unparsable:
  assumes "read_file e (CSV_META_FILE e) = Inr text" and "json_loads lib text = Inl JSONDecodeError"
  shows "get_last_check_time_from_metadata lib e = Inr PNone"
  by (simp add: get_last_check_time_from_metadata_def reader_parsed[OF assms(1)] assms(2)
      bind_err_def is_IOError_or_JSONDecodeError_def)


lemma reader_never_caught:
  "get_last_check_time_from_metadata lib e \<noteq> Inl OSError
   \<and> get_last_check_time_from_metadata lib e \<noteq> Inl JSONDecodeError"
  by (auto simp: get_last_check_time_from_metadata_def is_IOError_or_JSONDecodeError_def
      split: sum.splits if_splits)

section \<open>The metadata reader\<close>



lemma meta_absent:
  "\<not> os_path_exists (meta_env None) (CSV_META_FILE (meta_env None))"
  by code_simp

lemma meta_directory:
  "read_file (meta_env (Some Directory)) (CSV_META_FILE (meta_env (Some Directory))) = Inl OSError"
  by code_simp

lemma meta_text:
  "read_file (meta_env (Some (File raw))) (CSV_META_FILE (meta_env (Some (File raw)))) = Inr raw"
  by (simp add: read_file_def meta_env_def sample_env_def)

lemma not_json: "json_loads sample_lib ''not json'' = Inl JSONDecodeError"
  by code_simp






section \<open>The last-check-time endpoint\<close>

text \<open>
  Claim C9. The endpoint is to tell three outcomes apart: the metadata file is absent
  (200, null timestamp, a message), no timestamp is recorded (200, null timestamp, a
  message), and a read or parse error (500, null timestamp, an error field). The first
  two are answered as the claim says, and a timestamp that is found is returned with 200.
  A read or parse failure, however, never reaches the handler: the metadata reader has
  caught the \<^verbatim>\<open>IOError\<close> or \<^verbatim>\<open>JSONDecodeError\<close> and returned \<^verbatim>\<open>None\<close>, so the answer is
  the 200 response with the message \<^verbatim>\<open>No datasets found in metadata\<close> and the handler's own
  \<^verbatim>\<open>except\<close> branch with status 500 is not taken.
\<close>

theorem last_check_time_responses:
  "(\<not> os_path_exists e (CSV_META_FILE e) \<longrightarrow>
      get_last_check_time lib e =
        Inr (JsonResponse 200 (PDict [(''last_check_time'', PNone),
                                      (''message'', PStr ''csv_meta.json file not found'')])))
   \<and> (os_path_exists e (CSV_META_FILE e)
        \<and> get_last_check_time_from_metadata lib e = Inr PNone \<longrightarrow>
      get_last_check_time lib e =
        Inr (JsonResponse 200 (PDict [(''last_check_time'', PNone),
                                      (''message'', PStr ''No datasets found in metadata'')])))
   \<and> (\<forall>v. os_path_exists e (CSV_META_FILE e)
        \<and> get_last_check_time_from_metadata lib e = Inr v \<and> v \<noteq> PNone \<longrightarrow>
      get_last_check_time lib e = Inr (JsonResponse 200 (PDict [(''last_check_time'', v)])))
   \<and> (os_path_exists e (CSV_META_FILE e)
        \<and> ((\<exists>err. read_file e (CSV_META_FILE e) = Inl err)
            \<or> (\<exists>text. read_file e (CSV_META_FILE e) = Inr text
                  \<and> json_loads lib text = Inl JSONDecodeError)) \<longrightarrow>
      get_last_check_time lib e =
        Inr (JsonResponse 200 (PDict [(''last_check_time'', PNone),
                                      (''message'', PStr ''No datasets found in metadata'')])))"
proof (intro conjI allI impI)
  assume "\<not> os_path_exists e (CSV_META_FILE e)"
  then show "get_last_check_time lib e =
        Inr (JsonResponse 200 (PDict [(''last_check_time'', PNone),
                                      (''message'', PStr ''csv_meta.json file not found'')]))"
    by (simp add: get_last_check_time_def get_last_check_time_body_def)
next
  assume "os_path_exists e (CSV_META_FILE e)
        \<and> get_last_check_time_from_metadata lib e = Inr PNone"
  then show "get_last_check_time lib e =
        Inr (JsonResponse 200 (PDict [(''last_check_time'', PNone),
                                      (''message'', PStr ''No datasets found in metadata'')]))"
    by (simp add: get_last_check_time_def get_last_check_time_body_def bind_err_def)
next
  fix v
  assume "os_path_exists e (CSV_META_FILE e)
        \<and> get_last_check_time_from_metadata lib e = Inr v \<and> v \<noteq> PNone"
  then show "get_last_check_time lib e = Inr (JsonResponse 200 (PDict [(''last_check_time'', v)]))"
    by (simp add: get_last_check_time_def get_last_check_time_body_def bind_err_def)
next
  assume a: "os_path_exists e (CSV_META_FILE e)
        \<and> ((\<exists>err. read_file e (CSV_META_FILE e) = Inl err)
            \<or> (\<exists>text. read_file e (CSV_META_FILE e) = Inr text
                  \<and> json_loads lib text = Inl JSONDecodeError))"
  then have "get_last_check_time_from_metadata lib e = Inr PNone"
    using reader_unreadable reader_unparsable by blast
  with a show "get_last_check_time lib e =
        Inr (JsonResponse 200 (PDict [(''last_check_time'', PNone),
                                      (''message'', PStr ''No datasets found in metadata'')]))"
    by (simp add: get_last_check_time_def get_last_check_time_body_def bind_err_def)
qed

lemma last_check_time_never_500:
  "get_last_check_time lib e \<noteq> Inr (JsonResponse 500 body)"
  using reader_never_caught[of lib e]
  by (auto simp: get_last_check_time_def get_last_check_time_body_def bind_err_def
      is_IOError_or_JSONDecodeError_def split: sum.splits if_splits)

theorem last_check_time_responses_witness:
  "get_last_check_time sample_lib (meta_env None) =
     Inr (JsonResponse 200 (PDict [(''last_check_time'', PNone),
                                   (''message'', PStr ''csv_meta.json file not found'')]))
   \<and> get_last_check_time sample_lib (meta_env (Some (File ''not json''))) =
     Inr (JsonResponse 200 (PDict [(''last_check_time'', PNone),
                                   (''message'', PStr ''No datasets found in metadata'')]))
   \<and> get_last_check_time sample_lib (meta_env (Some Directory)) =
     Inr (JsonResponse 200 (PDict [(''last_check_time'', PNone),
                                   (''message'', PStr ''No datasets found in metadata'')]))
   \<and> get_last_check_time sample_lib (meta_env (Some (File ''{}''))) =
     Inr (JsonResponse 200 (PDict [(''last_check_time'', PNone),
                                   (''message'', PStr ''No datasets found in metadata'')]))
   \<and> get_last_check_time sample_lib sample_env =
     Inr (JsonResponse 200 (PDict [(''last_check_time'', PStr ''2025-01-01T00:00:00'')]))"
proof -
  have a: "get_last_check_time sample_lib (meta_env None) =
     Inr (JsonResponse 200 (PDict [(''last_check_time'', PNone),
                                   (''message'', PStr ''csv_meta.json file not found'')]))"
    using last_check_time_responses[of "meta_env None" sample_lib] meta_absent by blast
  have b0: "os_path_exists (meta_env (Some (File ''not json'')))
      (CSV_META_FILE (meta_env (Some (File ''not json''))))"
    by code_simp
  have b: "get_last_check_time sample_lib (meta_env (Some (File ''not json''))) =
     Inr (JsonResponse 200 (PDict [(''last_check_time'', PNone),
                                   (''message'', PStr ''No datasets found in metadata'')]))"
    using last_check_time_responses[of "meta_env (Some (File ''not json''))" sample_lib]
      b0 meta_text[of "''not json''"] not_json
    by blast
  have c0: "os_path_exists (meta_env (Some Directory)) (CSV_META_FILE (meta_env (Some Directory)))"
    by code_simp
  have c: "get_last_check_time sample_lib (meta_env (Some Directory)) =
     Inr (JsonResponse 200 (PDict [(''last_check_time'', PNone),
                                   (''message'', PStr ''No datasets found in metadata'')]))"
    using last_check_time_responses[of "meta_env (Some Directory)" sample_lib] c0 meta_directory
    by blast
  have d0: "os_path_exists (meta_env (Some (File ''{}''))) (CSV_META_FILE (meta_env (Some (File ''{}''))))
      \<and> get_last_check_time_from_metadata sample_lib (meta_env (Some (File ''{}''))) = Inr PNone"
    by code_simp
  have d: "get_last_check_time sample_lib (meta_env (Some (File ''{}''))) =
     Inr (JsonResponse 200 (PDict [(''last_check_time'', PNone),
                                   (''message'', PStr ''No datasets found in metadata'')]))"
    using last_check_time_responses[of "meta_env (Some (File ''{}''))" sample_lib] d0 by blast
  have f0: "os_path_exists sample_env (CSV_META_FILE sample_env)
      \<and> get_last_check_time_from_metadata sample_lib sample_env = Inr (PStr ''2025-01-01T00:00:00'')
      \<and> PStr ''2025-01-01T00:00:00'' \<noteq> (PNone :: string pyval)"
    by code_simp
  have f: "get_last_check_time sample_lib sample_env =
     Inr (JsonResponse 200 (PDict [(''last_check_time'', PStr ''2025-01-01T00:00:00'')]))"
    using last_check_time_responses[of sample_env sample_lib] f0 by blast
  from a b c d f show ?thesis by blast
qed

end
